theory Spec2Isabelle
  imports Main "HOL-Library.AList"
begin

section \<open>Strings and characters\<close>

text \<open>
  JavaScript strings are modelled as \<^typ>\<open>string\<close>, one \<^typ>\<open>char\<close> per code unit
  (the Latin-1 range). The double quote is written \<open>CHR 0x22\<close>.
\<close>

definition dquote :: char where
  "dquote = CHR 0x22"

text \<open>The characters that \<open>\s\<close> and \<open>String.prototype.trim\<close> treat as white space
  (tab, line feed, vertical tab, form feed, carriage return, space, no-break space).\<close>

definition isSpace :: "char \<Rightarrow> bool" where
  "isSpace c = (c = CHR 0x09 \<or> c = CHR 0x0A \<or> c = CHR 0x0B \<or> c = CHR 0x0C
                \<or> c = CHR 0x0D \<or> c = CHR 0x20 \<or> c = CHR 0xA0)"

definition trim :: "string \<Rightarrow> string" where
  "trim s = rev (dropWhile isSpace (rev (dropWhile isSpace s)))"

text \<open>\<open>s.startsWith(p)\<close>.\<close>

definition startsWith :: "string \<Rightarrow> string \<Rightarrow> bool" where
  "startsWith s p = (take (length p) s = p)"

text \<open>\<open>s.split(d)\<close> for a one-character separator: never the empty array.\<close>

fun split :: "char \<Rightarrow> string \<Rightarrow> string list" where
  "split d [] = [[]]"
| "split d (c # cs) =
     (if c = d then [] # split d cs
      else (case split d cs of [] \<Rightarrow> [[c]] | w # ws \<Rightarrow> (c # w) # ws))"

fun joinWith :: "char \<Rightarrow> string list \<Rightarrow> string" where
  "joinWith d [] = []"
| "joinWith d [w] = w"
| "joinWith d (w # ws) = w @ d # joinWith d ws"

section \<open>Errors\<close>

datatype error =
    ENOENT | EISDIR | ENOTDIR | EEXIST | ENOTEMPTY | EINVAL
  | ERR_INVALID_ARG_TYPE
  | TypeError
  | DecodeError

section \<open>node:path, POSIX flavour\<close>

text \<open>
  \<open>normalizeString\<close>: the segments between slashes are pushed on a stack; empty segments
  and \<open>.\<close> are skipped; \<open>..\<close> pops the last segment unless that is itself \<open>..\<close> (or the
  stack is empty), in which case it is kept only when \<open>allowAboveRoot\<close> holds. The stack
  is kept reversed.
\<close>

fun normSegs :: "bool \<Rightarrow> string list \<Rightarrow> string list \<Rightarrow> string list" where
  "normSegs allowAboveRoot [] st = rev st"
| "normSegs allowAboveRoot (seg # segs) st =
     (if seg = [] \<or> seg = ''.'' then normSegs allowAboveRoot segs st
      else if seg = ''..'' then
        (case st of
           [] \<Rightarrow> normSegs allowAboveRoot segs (if allowAboveRoot then [''..''] else [])
         | t # ts \<Rightarrow>
             if t = ''..''
             then normSegs allowAboveRoot segs (if allowAboveRoot then ''..'' # st else st)
             else normSegs allowAboveRoot segs ts)
      else normSegs allowAboveRoot segs (seg # st))"

definition normalizeString :: "string \<Rightarrow> bool \<Rightarrow> string" where
  "normalizeString path allowAboveRoot =
     joinWith (CHR ''/'') (normSegs allowAboveRoot (split (CHR ''/'') path) [])"

text \<open>A segment that normalisation keeps as it is: not empty, not \<open>.\<close>, not \<open>..\<close>,
  without a slash.\<close>

definition properSeg :: "string \<Rightarrow> bool" where
  "properSeg seg = (seg \<noteq> [] \<and> seg \<noteq> ''.'' \<and> seg \<noteq> ''..'' \<and> CHR ''/'' \<notin> set seg)"

text \<open>
  The loop of \<open>path.resolve\<close>, from the last argument to the first, until an absolute
  prefix is found. An argument that is not a string (\<open>undefined\<close>, here \<open>None\<close>) makes
  \<open>validateString\<close> throw; an empty argument is skipped. The list is given reversed.
\<close>

fun resolveLoop :: "string option list \<Rightarrow> string \<Rightarrow> error + (string \<times> bool)" where
  "resolveLoop [] resolvedPath = Inr (resolvedPath, False)"
| "resolveLoop (None # args) resolvedPath = Inl ERR_INVALID_ARG_TYPE"
| "resolveLoop (Some path # args) resolvedPath =
     (if path = [] then resolveLoop args resolvedPath
      else if hd path = CHR ''/'' then Inr (path @ ''/'' @ resolvedPath, True)
      else resolveLoop args (path @ ''/'' @ resolvedPath))"

text \<open>\<open>path.resolve(...args)\<close>; \<open>cwd\<close> is \<open>process.cwd()\<close>, used only when no argument is
  absolute.\<close>

definition path_resolve :: "string \<Rightarrow> string option list \<Rightarrow> error + string" where
  "path_resolve cwd args =
     (case resolveLoop (rev args) [] of
        Inl e \<Rightarrow> Inl e
      | Inr (resolvedPath, resolvedAbsolute) \<Rightarrow>
          if resolvedAbsolute then Inr (CHR ''/'' # normalizeString resolvedPath False)
          else if cwd \<noteq> [] \<and> hd cwd = CHR ''/''
          then Inr (CHR ''/'' # normalizeString (cwd @ ''/'' @ resolvedPath) False)
          else (let r = normalizeString (cwd @ ''/'' @ resolvedPath) True
                in Inr (if r = [] then ''.'' else r)))"

text \<open>
  \<open>path.dirname\<close>: trailing slashes are dropped, then the last component; the first
  character is never examined by the loop (\<open>i >= 1\<close>).
\<close>

definition path_dirname :: "string \<Rightarrow> string" where
  "path_dirname path =
     (case path of
        [] \<Rightarrow> ''.''
      | c # rest \<Rightarrow>
          (let r = dropWhile (\<lambda>x. x \<noteq> CHR ''/'') (dropWhile (\<lambda>x. x = CHR ''/'') (rev rest))
           in if r = [] then (if c = CHR ''/'' then ''/'' else ''.'')
              else if c = CHR ''/'' \<and> tl r = [] then ''//''
              else c # rev (tl r)))"

text \<open>\<open>path.basename\<close> (no suffix argument): the last component, trailing slashes
  dropped; \<open>undefined\<close> makes \<open>validateString\<close> throw.\<close>

definition basenameStr :: "string \<Rightarrow> string" where
  "basenameStr path =
     rev (takeWhile (\<lambda>x. x \<noteq> CHR ''/'') (dropWhile (\<lambda>x. x = CHR ''/'') (rev path)))"

definition path_basename :: "string option \<Rightarrow> error + string" where
  "path_basename path =
     (case path of None \<Rightarrow> Inl ERR_INVALID_ARG_TYPE | Some p \<Rightarrow> Inr (basenameStr p))"

section \<open>The file system\<close>

text \<open>
  The host file system, as far as the program can observe it: regular files with their
  bytes and directories, keyed by absolute normalised path (what \<open>path.resolve\<close>
  returns). Links, permissions and special files are left out.
\<close>

datatype node = File string | Dir

type_synonym filesystem = "(string \<times> node) list"

text \<open>The calls of \<open>node:fs\<close> the program makes, in the order it makes them.\<close>

datatype fscall =
    ExistsSync string | StatSync string | ReaddirSync string
  | OpenRead string | OpenWrite string
  | WriteFileSync string | MkdirSync string
  | RenameSync string string | UnlinkSync string

text \<open>Opening for reading and reading to the end (\<open>fs.createReadStream\<close>).\<close>

definition readBytes :: "filesystem \<Rightarrow> string \<Rightarrow> error + string" where
  "readBytes d p =
     (case map_of d p of
        None \<Rightarrow> Inl ENOENT
      | Some Dir \<Rightarrow> Inl EISDIR
      | Some (File c) \<Rightarrow> Inr c)"

text \<open>Opening with flag \<open>'w'\<close> (the default of \<open>fs.createWriteStream\<close> and
  \<open>fs.writeFileSync\<close>): the file is created, or truncated when it exists.\<close>

definition openTrunc :: "filesystem \<Rightarrow> string \<Rightarrow> error + filesystem" where
  "openTrunc d p =
     (case map_of d p of
        Some Dir \<Rightarrow> Inl EISDIR
      | Some (File c) \<Rightarrow> Inr (AList.update p (File []) d)
      | None \<Rightarrow>
          if map_of d (path_dirname p) = Some Dir
          then Inr (AList.update p (File []) d) else Inl ENOENT)"

text \<open>When that opening succeeds: the path is not a directory, and it holds a file or
  lies in a directory.\<close>

definition canCreate :: "filesystem \<Rightarrow> string \<Rightarrow> bool" where
  "canCreate d p =
     (case map_of d p of
        Some Dir \<Rightarrow> False
      | Some (File c) \<Rightarrow> True
      | None \<Rightarrow> map_of d (path_dirname p) = Some Dir)"

definition mkdirSync :: "filesystem \<Rightarrow> string \<Rightarrow> error + filesystem" where
  "mkdirSync d p =
     (case map_of d p of
        Some n \<Rightarrow> Inl EEXIST
      | None \<Rightarrow>
          if map_of d (path_dirname p) = Some Dir
          then Inr (AList.update p Dir d) else Inl ENOENT)"

definition unlinkSync :: "filesystem \<Rightarrow> string \<Rightarrow> error + filesystem" where
  "unlinkSync d p =
     (case map_of d p of
        None \<Rightarrow> Inl ENOENT
      | Some Dir \<Rightarrow> Inl EISDIR
      | Some (File c) \<Rightarrow> Inr (AList.delete p d))"

text \<open>The entries of a directory, as \<open>(name, node)\<close> pairs.\<close>

definition children :: "filesystem \<Rightarrow> string \<Rightarrow> (string \<times> node) list" where
  "children d p =
     map (\<lambda>(q, n). (basenameStr q, n))
       (filter (\<lambda>(q, n). q \<noteq> p \<and> path_dirname q = p) d)"

definition readdirSync :: "filesystem \<Rightarrow> string \<Rightarrow> error + (string \<times> node) list" where
  "readdirSync d p =
     (case map_of d p of
        None \<Rightarrow> Inl ENOENT
      | Some (File c) \<Rightarrow> Inl ENOTDIR
      | Some Dir \<Rightarrow> Inr (children d p))"

text \<open>\<open>q\<close> lies strictly below the directory \<open>p\<close>.\<close>

definition isUnder :: "string \<Rightarrow> string \<Rightarrow> bool" where
  "isUnder p q =
     (if p = ''/'' then q \<noteq> ''/'' else take (Suc (length p)) q = p @ ''/'')"

text \<open>
  \<open>rename(2)\<close>: the old path must exist and the parent of the new one be a directory;
  renaming a path to itself does nothing; a file replaces a file but not a directory; a
  directory replaces only an empty directory, moves with everything below it, and cannot
  be moved below itself.
\<close>

definition renameSync :: "filesystem \<Rightarrow> string \<Rightarrow> string \<Rightarrow> error + filesystem" where
  "renameSync d old new =
     (case map_of d old of
        None \<Rightarrow> Inl ENOENT
      | Some n \<Rightarrow>
          if map_of d (path_dirname new) \<noteq> Some Dir then Inl ENOENT
          else if old = new then Inr d
          else (case n of
                  File c \<Rightarrow>
                    (case map_of d new of
                       Some Dir \<Rightarrow> Inl EISDIR
                     | _ \<Rightarrow> Inr (AList.update new (File c) (AList.delete old d)))
                | Dir \<Rightarrow>
                    if isUnder old new then Inl EINVAL
                    else (case map_of d new of
                            Some (File c) \<Rightarrow> Inl ENOTDIR
                          | other \<Rightarrow>
                              if children d new \<noteq> [] then Inl ENOTEMPTY
                              else Inr (map (\<lambda>(q, m).
                                          if q = old then (new, m)
                                          else if isUnder old q
                                          then (new @ drop (length old) q, m)
                                          else (q, m))
                                        (AList.delete new d)))))"

section \<open>The session\<close>

text \<open>
  What the program reads from its host and from the libraries it calls: the arguments of
  the process, \<open>os.*\<close>, \<open>process.cwd()\<close>, \<open>process.arch\<close>, the SHA-256 digest in
  hexadecimal, the Brotli encoder and decoder (the decoder returns the bytes it emitted
  and whether the input was valid), the order of \<open>localeCompare\<close>, \<open>JSON.stringify\<close> on
  a string, and the decimal text of the number \<open>n / d\<close>.
\<close>

record env =
  argv :: "string list"
  homedir :: string
  procCwd :: string
  osEOL :: string
  osCpus :: "(string \<times> nat) list"
  osUsername :: string
  procArch :: string
  sha256hex :: "string \<Rightarrow> string"
  brotliCompress :: "string \<Rightarrow> string"
  brotliDecompress :: "string \<Rightarrow> string \<times> bool"
  localeLe :: "string \<Rightarrow> string \<Rightarrow> bool"
  jsonStringify :: "string \<Rightarrow> string"
  numberText :: "nat \<Rightarrow> nat \<Rightarrow> string"

text \<open>What the program writes: a line of \<open>console.log\<close>, a chunk of
  \<open>process.stdout.write\<close>, the rows of \<open>console.table\<close>.\<close>

datatype printed = Log string | Write string | Table "(string \<times> string) list"

record state =
  currentDir :: string
  disk :: filesystem
  console :: "printed list"
  calls :: "fscall list"

definition consoleLog :: "string \<Rightarrow> state \<Rightarrow> state" where
  "consoleLog line s = s\<lparr>console := console s @ [Log line]\<rparr>"

definition called :: "fscall list \<Rightarrow> state \<Rightarrow> state" where
  "called cs s = s\<lparr>calls := calls s @ cs\<rparr>"

text \<open>How a command ends: it returns; it throws, or the promise it awaits rejects (both
  reach the \<open>catch\<close> of the line handler); an \<open>'error'\<close> event nobody listens to is
  thrown out of the event loop; \<open>process.exit\<close> is called.\<close>

datatype completion = Returned | Threw error | Uncaught error | Exited

subsection \<open>Start-up\<close>

text \<open>Lines 10 to 12: \<open>args.find(...)\<close>, then \<open>usernameArg.split('=')[1]\<close>. An element
  that is missing from an array reads as \<open>undefined\<close>, which a template literal prints as
  that word.\<close>

definition usernameArg :: "string list \<Rightarrow> string option" where
  "usernameArg args = find (\<lambda>arg. startsWith arg ''--username='') args"

definition username :: "string list \<Rightarrow> string" where
  "username args =
     (case usernameArg args of
        None \<Rightarrow> ''Anonymous''
      | Some a \<Rightarrow>
          if a = [] then ''Anonymous''
          else (case split (CHR ''='') a of
                  x # name # rest \<Rightarrow> name
                | other \<Rightarrow> ''undefined''))"

definition greeting :: "env \<Rightarrow> string" where
  "greeting E = ''Welcome to the File Manager, '' @ username (argv E) @ ''!''"

definition farewell :: "env \<Rightarrow> string" where
  "farewell E = ''Thank you for using File Manager, '' @ username (argv E) @ '', goodbye!''"

definition printCurrentDir :: "state \<Rightarrow> state" where
  "printCurrentDir s = consoleLog (''You are currently in '' @ currentDir s) s"

definition startup :: "env \<Rightarrow> filesystem \<Rightarrow> state" where
  "startup E d =
     printCurrentDir
       (consoleLog (greeting E) \<lparr>currentDir = homedir E, disk = d, console = [], calls = []\<rparr>)"

definition exitProgram :: "env \<Rightarrow> state \<Rightarrow> completion \<times> state" where
  "exitProgram E s = (Exited, consoleLog (farewell E) s)"

subsection \<open>The tokenizer\<close>

text \<open>
  \<open>input.match(/(?:[^\s"]+|"[^"]*")+/g)\<close>, read from left to right. A match is a
  maximal run of the two alternatives: a run of characters that are neither white space
  nor a double quote, or a double quote up to and with the next one. At a white space,
  and at a double quote that is never closed, no alternative matches: a match in
  progress ends there, and the search goes on after that character. \<open>cur\<close> is the match
  in progress, \<open>inq\<close> says that a quoted span is open.
\<close>

definition flush :: "string \<Rightarrow> string list" where
  "flush cur = (if cur = [] then [] else [cur])"

fun matchAll :: "string \<Rightarrow> string \<Rightarrow> bool \<Rightarrow> string list" where
  "matchAll [] cur inq = flush cur"
| "matchAll (c # cs) cur inq =
     (if inq then matchAll cs (cur @ [c]) (c \<noteq> dquote)
      else if c = dquote then
        (if dquote \<in> set cs then matchAll cs (cur @ [c]) True
         else flush cur @ matchAll cs [] False)
      else if isSpace c then flush cur @ matchAll cs [] False
      else matchAll cs (cur @ [c]) False)"

text \<open>\<open>arg.replace(/^"|"$/g, '')\<close>: a double quote at the start goes, then one at the end
  of what is left.\<close>

definition stripQuotes :: "string \<Rightarrow> string" where
  "stripQuotes arg =
     (let a = (if arg \<noteq> [] \<and> hd arg = dquote then tl arg else arg)
      in if a \<noteq> [] \<and> last a = dquote then butlast a else a)"

text \<open>\<open>parseInput\<close>: \<open>match\<close> returns \<open>null\<close> when nothing matches, and \<open>null.map\<close> throws
  a \<open>TypeError\<close>.\<close>

definition parseInput :: "string \<Rightarrow> error + string list" where
  "parseInput input =
     (case matchAll input [] False of
        [] \<Rightarrow> Inl TypeError
      | m # ms \<Rightarrow> Inr (map stripQuotes (m # ms)))"

subsection \<open>Navigation\<close>

definition goUp :: "state \<Rightarrow> completion \<times> state" where
  "goUp s =
     (let parentDir = path_dirname (currentDir s)
      in if parentDir \<noteq> currentDir s then (Returned, s\<lparr>currentDir := parentDir\<rparr>)
         else (Returned, s))"

definition changeDirectory :: "env \<Rightarrow> state \<Rightarrow> string option \<Rightarrow> completion \<times> state" where
  "changeDirectory E s dir =
     (case path_resolve (procCwd E) [Some (currentDir s), dir] of
        Inl e \<Rightarrow> (Threw e, s)
      | Inr newPath \<Rightarrow>
          (case map_of (disk s) newPath of
             None \<Rightarrow> (Returned, consoleLog ''Operation failed'' (called [ExistsSync newPath] s))
           | Some n \<Rightarrow>
               (let s1 = called [ExistsSync newPath, StatSync newPath] s
                in if n = Dir then (Returned, s1\<lparr>currentDir := newPath\<rparr>)
                   else (Returned, consoleLog ''Operation failed'' s1))))"

subsection \<open>The file operations\<close>

text \<open>A stable insertion sort under the comparator, as \<open>Array.prototype.sort\<close> with
  \<open>localeCompare\<close>.\<close>

fun insertBy :: "('a \<Rightarrow> 'a \<Rightarrow> bool) \<Rightarrow> 'a \<Rightarrow> 'a list \<Rightarrow> 'a list" where
  "insertBy le x [] = [x]"
| "insertBy le x (y # ys) = (if le x y then x # y # ys else y # insertBy le x ys)"

definition sortBy :: "('a \<Rightarrow> 'a \<Rightarrow> bool) \<Rightarrow> 'a list \<Rightarrow> 'a list" where
  "sortBy le xs = foldr (insertBy le) xs []"

definition listDirectory :: "env \<Rightarrow> state \<Rightarrow> completion \<times> state" where
  "listDirectory E s =
     (let s1 = called [ReaddirSync (currentDir s)] s
      in case readdirSync (disk s) (currentDir s) of
           Inl e \<Rightarrow> (Threw e, s1)
         | Inr items \<Rightarrow>
             (let directories = map (\<lambda>(name, n). (name, ''directory''))
                                  (filter (\<lambda>(name, n). n = Dir) items);
                  files = map (\<lambda>(name, n). (name, ''file''))
                            (filter (\<lambda>(name, n). n \<noteq> Dir) items);
                  list = sortBy (\<lambda>a b. localeLe E (fst a) (fst b)) (directories @ files)
              in (Returned, s1\<lparr>console := console s1 @ [Table list]\<rparr>)))"

definition readFile :: "env \<Rightarrow> state \<Rightarrow> string option \<Rightarrow> completion \<times> state" where
  "readFile E s filePath =
     (case path_resolve (procCwd E) [Some (currentDir s), filePath] of
        Inl e \<Rightarrow> (Threw e, s)
      | Inr fullPath \<Rightarrow>
          (let s1 = called [OpenRead fullPath] s
           in case readBytes (disk s) fullPath of
                Inl e \<Rightarrow> (Threw e, s1)
              | Inr chunk \<Rightarrow>
                  (Returned,
                   if chunk = [] then s1 else s1\<lparr>console := console s1 @ [Write chunk]\<rparr>)))"

definition createFile :: "env \<Rightarrow> state \<Rightarrow> string option \<Rightarrow> completion \<times> state" where
  "createFile E s fileName =
     (case path_resolve (procCwd E) [Some (currentDir s), fileName] of
        Inl e \<Rightarrow> (Threw e, s)
      | Inr fullPath \<Rightarrow>
          (let s1 = called [WriteFileSync fullPath] s
           in case openTrunc (disk s) fullPath of
                Inl e \<Rightarrow> (Threw e, s1)
              | Inr d \<Rightarrow> (Returned, s1\<lparr>disk := d\<rparr>)))"

definition createDirectory :: "env \<Rightarrow> state \<Rightarrow> string option \<Rightarrow> completion \<times> state" where
  "createDirectory E s dirName =
     (case path_resolve (procCwd E) [Some (currentDir s), dirName] of
        Inl e \<Rightarrow> (Threw e, s)
      | Inr fullPath \<Rightarrow>
          (let s1 = called [MkdirSync fullPath] s
           in case mkdirSync (disk s) fullPath of
                Inl e \<Rightarrow> (Threw e, s1)
              | Inr d \<Rightarrow> (Returned, s1\<lparr>disk := d\<rparr>)))"

definition renameFile ::
  "env \<Rightarrow> state \<Rightarrow> string option \<Rightarrow> string option \<Rightarrow> completion \<times> state" where
  "renameFile E s oldPath newName =
     (case path_resolve (procCwd E) [Some (currentDir s), oldPath] of
        Inl e \<Rightarrow> (Threw e, s)
      | Inr oldFullPath \<Rightarrow>
          (case path_resolve (procCwd E) [Some (path_dirname oldFullPath), newName] of
             Inl e \<Rightarrow> (Threw e, s)
           | Inr newFullPath \<Rightarrow>
               (let s1 = called [RenameSync oldFullPath newFullPath] s
                in case renameSync (disk s) oldFullPath newFullPath of
                     Inl e \<Rightarrow> (Threw e, s1)
                   | Inr d \<Rightarrow> (Returned, s1\<lparr>disk := d\<rparr>))))"

text \<open>
  \<open>readStream.pipe(...).pipe(writeStream)\<close> between two paths, with the transform in
  between (\<open>f\<close> returns the bytes it lets through and whether it ended without error).
  Both streams are opened in the order the source creates them, before the first chunk
  is read: the source as the file system is at the call, then the destination with flag
  \<open>'w'\<close>; the bytes are read after that. Only the write stream has an \<open>'error'\<close>
  listener (it rejects the promise); an error of the read stream or of the transform has
  none, and is thrown out of the event loop. When neither stream can be opened, the
  error of the read stream, created first, is the one that ends the command.
\<close>

definition pipeStreams ::
  "(string \<Rightarrow> string \<times> bool) \<Rightarrow> string \<Rightarrow> string \<Rightarrow> state \<Rightarrow> completion \<times> state" where
  "pipeStreams f srcPath destPath s =
     (let s1 = called [OpenRead srcPath, OpenWrite destPath] s
      in case (readBytes (disk s) srcPath, openTrunc (disk s) destPath) of
           (Inl re, Inl we) \<Rightarrow> (Uncaught re, s1)
         | (Inl re, Inr d1) \<Rightarrow> (Uncaught re, s1\<lparr>disk := d1\<rparr>)
         | (Inr c, Inl we) \<Rightarrow> (Threw we, s1)
         | (Inr c, Inr d1) \<Rightarrow>
             (let chunks = (case readBytes d1 srcPath of Inl e \<Rightarrow> [] | Inr b \<Rightarrow> b);
                  (written, ok) = f chunks;
                  s2 = s1\<lparr>disk := AList.update destPath (File written) d1\<rparr>
              in if ok then (Returned, s2) else (Uncaught DecodeError, s2)))"

definition copyFile ::
  "env \<Rightarrow> state \<Rightarrow> string option \<Rightarrow> string option \<Rightarrow> completion \<times> state" where
  "copyFile E s src destDir =
     (case path_resolve (procCwd E) [Some (currentDir s), src] of
        Inl e \<Rightarrow> (Threw e, s)
      | Inr srcPath \<Rightarrow>
          (case path_basename src of
             Inl e \<Rightarrow> (Threw e, s)
           | Inr base \<Rightarrow>
               (case path_resolve (procCwd E) [Some (currentDir s), destDir, Some base] of
                  Inl e \<Rightarrow> (Threw e, s)
                | Inr destPath \<Rightarrow> pipeStreams (\<lambda>b. (b, True)) srcPath destPath s)))"

definition moveFile ::
  "env \<Rightarrow> state \<Rightarrow> string option \<Rightarrow> string option \<Rightarrow> completion \<times> state" where
  "moveFile E s src destDir =
     (case copyFile E s src destDir of
        (Returned, s1) \<Rightarrow>
          (case path_resolve (procCwd E) [Some (currentDir s1), src] of
             Inl e \<Rightarrow> (Threw e, s1)
           | Inr srcPath \<Rightarrow>
               (let s2 = called [UnlinkSync srcPath] s1
                in case unlinkSync (disk s1) srcPath of
                     Inl e \<Rightarrow> (Threw e, s2)
                   | Inr d \<Rightarrow> (Returned, s2\<lparr>disk := d\<rparr>)))
      | (c, s1) \<Rightarrow> (c, s1))"

definition removeFile :: "env \<Rightarrow> state \<Rightarrow> string option \<Rightarrow> completion \<times> state" where
  "removeFile E s filePath =
     (case path_resolve (procCwd E) [Some (currentDir s), filePath] of
        Inl e \<Rightarrow> (Threw e, s)
      | Inr fullPath \<Rightarrow>
          (let s1 = called [UnlinkSync fullPath] s
           in case unlinkSync (disk s) fullPath of
                Inl e \<Rightarrow> (Threw e, s1)
              | Inr d \<Rightarrow> (Returned, s1\<lparr>disk := d\<rparr>)))"

definition getOSInfo :: "env \<Rightarrow> state \<Rightarrow> string option \<Rightarrow> completion \<times> state" where
  "getOSInfo E s flag =
     (if flag = Some ''--EOL'' then (Returned, consoleLog (jsonStringify E (osEOL E)) s)
      else if flag = Some ''--cpus'' then
        (Returned,
         s\<lparr>console := console s
              @ [Log (''Total CPUs: '' @ numberText E (length (osCpus E)) 1)]
              @ map (\<lambda>(index, (model, speed)).
                       Log (''CPU '' @ numberText E (index + 1) 1 @ '': '' @ model @ '', ''
                            @ numberText E speed 1000 @ '' GHz''))
                  (zip [0 ..< length (osCpus E)] (osCpus E))\<rparr>)
      else if flag = Some ''--homedir'' then (Returned, consoleLog (homedir E) s)
      else if flag = Some ''--username'' then (Returned, consoleLog (osUsername E) s)
      else if flag = Some ''--architecture'' then (Returned, consoleLog (procArch E) s)
      else (Returned, consoleLog ''Invalid input'' s))"

definition calculateHash :: "env \<Rightarrow> state \<Rightarrow> string option \<Rightarrow> completion \<times> state" where
  "calculateHash E s filePath =
     (case path_resolve (procCwd E) [Some (currentDir s), filePath] of
        Inl e \<Rightarrow> (Threw e, s)
      | Inr fullPath \<Rightarrow>
          (let s1 = called [OpenRead fullPath] s
           in case readBytes (disk s) fullPath of
                Inl e \<Rightarrow> (Threw e, s1)
              | Inr c \<Rightarrow> (Returned, consoleLog (sha256hex E c) s1)))"

definition compressFile ::
  "env \<Rightarrow> state \<Rightarrow> string option \<Rightarrow> string option \<Rightarrow> completion \<times> state" where
  "compressFile E s src dest =
     (case path_resolve (procCwd E) [Some (currentDir s), src] of
        Inl e \<Rightarrow> (Threw e, s)
      | Inr srcPath \<Rightarrow>
          (case path_resolve (procCwd E) [Some (currentDir s), dest] of
             Inl e \<Rightarrow> (Threw e, s)
           | Inr destPath \<Rightarrow>
               pipeStreams (\<lambda>b. (brotliCompress E b, True)) srcPath destPath s))"

definition decompressFile ::
  "env \<Rightarrow> state \<Rightarrow> string option \<Rightarrow> string option \<Rightarrow> completion \<times> state" where
  "decompressFile E s src dest =
     (case path_resolve (procCwd E) [Some (currentDir s), src] of
        Inl e \<Rightarrow> (Threw e, s)
      | Inr srcPath \<Rightarrow>
          (case path_resolve (procCwd E) [Some (currentDir s), dest] of
             Inl e \<Rightarrow> (Threw e, s)
           | Inr destPath \<Rightarrow> pipeStreams (brotliDecompress E) srcPath destPath s))"

subsection \<open>The line handler\<close>

text \<open>\<open>params[i]\<close>: \<open>undefined\<close> beyond the end.\<close>

definition param :: "string list \<Rightarrow> nat \<Rightarrow> string option" where
  "param params i = (if i < length params then Some (params ! i) else None)"

text \<open>The \<open>switch\<close> of the line handler.\<close>

definition dispatch :: "env \<Rightarrow> state \<Rightarrow> string \<Rightarrow> string list \<Rightarrow> completion \<times> state" where
  "dispatch E s command params =
     (if command = ''up'' then goUp s
      else if command = ''cd'' then changeDirectory E s (param params 0)
      else if command = ''ls'' then listDirectory E s
      else if command = ''cat'' then readFile E s (param params 0)
      else if command = ''add'' then createFile E s (param params 0)
      else if command = ''mkdir'' then createDirectory E s (param params 0)
      else if command = ''rn'' then renameFile E s (param params 0) (param params 1)
      else if command = ''cp'' then copyFile E s (param params 0) (param params 1)
      else if command = ''mv'' then moveFile E s (param params 0) (param params 1)
      else if command = ''rm'' then removeFile E s (param params 0)
      else if command = ''os'' then getOSInfo E s (param params 0)
      else if command = ''hash'' then calculateHash E s (param params 0)
      else if command = ''compress'' then compressFile E s (param params 0) (param params 1)
      else if command = ''decompress'' then decompressFile E s (param params 0) (param params 1)
      else if command = ''.exit'' then exitProgram E s
      else (Returned, consoleLog ''Invalid input'' s))"

text \<open>
  How the handling of one line ends: the prompt is shown again and the next line is
  awaited; the process has exited with a status; or the process has died of an error
  that nothing caught (an exception thrown out of the event loop, or the rejection of
  the promise of the handler itself, which has no handler).
\<close>

datatype outcome = Prompt state | Terminated nat state | Crashed error state

fun stateOf :: "outcome \<Rightarrow> state" where
  "stateOf (Prompt s) = s"
| "stateOf (Terminated n s) = s"
| "stateOf (Crashed e s) = s"

text \<open>The listener of \<open>'line'\<close> (lines 27 to 92). \<open>parseInput\<close> is called before the
  \<open>try\<close> block is entered.\<close>

definition handleLine :: "env \<Rightarrow> state \<Rightarrow> string \<Rightarrow> outcome" where
  "handleLine E s line =
     (let input = trim line
      in if input = [] then Prompt s
         else (case parseInput input of
                 Inl e \<Rightarrow> Crashed e s
               | Inr [] \<Rightarrow> Prompt (printCurrentDir (consoleLog ''Invalid input'' s))
               | Inr (command # params) \<Rightarrow>
                   (case dispatch E s command params of
                      (Returned, s1) \<Rightarrow> Prompt (printCurrentDir s1)
                    | (Threw e, s1) \<Rightarrow>
                        Prompt (printCurrentDir (consoleLog ''Operation failed'' s1))
                    | (Uncaught e, s1) \<Rightarrow> Crashed e s1
                    | (Exited, s1) \<Rightarrow> Terminated 0 s1)))"

text \<open>The session on the lines of its input: a line is handled when the one before it
  has ended with the prompt; the end of the input (\<open>'close'\<close>) calls \<open>exitProgram\<close>.\<close>

fun session :: "env \<Rightarrow> state \<Rightarrow> string list \<Rightarrow> outcome" where
  "session E s [] = Terminated 0 (snd (exitProgram E s))"
| "session E s (line # lines) =
     (case handleLine E s line of
        Prompt s1 \<Rightarrow> session E s1 lines
      | other \<Rightarrow> other)"

section \<open>A small host\<close>

text \<open>A host and a file system on which the definitions are run: the home directory
  \<open>/home/u\<close> holds the file \<open>a.txt\<close> with three bytes and the empty directory \<open>sub\<close>.\<close>

definition hostExample :: env where
  "hostExample = \<lparr>argv = [''--username=Bob''], homedir = ''/home/u'', procCwd = ''/home/u'',
     osEOL = [CHR 0x0A], osCpus = [(''cpu'', 2400)], osUsername = ''u'', procArch = ''x64'',
     sha256hex = (\<lambda>b. b), brotliCompress = (\<lambda>b. CHR ''z'' # b),
     brotliDecompress = (\<lambda>b. (tl b, b \<noteq> [] \<and> hd b = CHR ''z'')),
     localeLe = (\<lambda>a b. length a \<le> length b), jsonStringify = (\<lambda>b. b),
     numberText = (\<lambda>n d. ''0'')\<rparr>"

definition diskExample :: filesystem where
  "diskExample =
     [(''/'', Dir), (''/home'', Dir), (''/home/u'', Dir),
      (''/home/u/a.txt'', File ''abc''), (''/home/u/sub'', Dir)]"

definition stateExample :: state where
  "stateExample = \<lparr>currentDir = ''/home/u'', disk = diskExample, console = [], calls = []\<rparr>"

text \<open>The same with a file \<open>old.br\<close> in \<open>sub\<close>.\<close>

definition stateExample2 :: state where
  "stateExample2 =
     \<lparr>currentDir = ''/home/u'',
      disk = diskExample @ [(''/home/u/sub/old.br'', File ''old'')],
      console = [], calls = []\<rparr>"

section \<open>Basic facts\<close>

lemma resolveLoop_strings:
  "None \<notin> set args \<Longrightarrow> \<exists>p b. resolveLoop args acc = Inr (p, b)"
proof (induction args arbitrary: acc)
  case Nil
  show ?case by auto
next
  case (Cons a args)
  then obtain q where a: "a = Some q" by (cases a) auto
  from Cons have "None \<notin> set args" by simp
  with Cons.IH a show ?case by auto
qed

lemma path_resolve_strings:
  assumes "None \<notin> set args"
  shows "\<exists>p. path_resolve cwd args = Inr p"
proof -
  from assms have "None \<notin> set (rev args)" by simp
  then obtain r b where "resolveLoop (rev args) [] = Inr (r, b)"
    using resolveLoop_strings by blast
  then show ?thesis by (simp add: path_resolve_def Let_def)
qed

lemma parseInput_Nil: "parseInput [] = Inl TypeError"
  by (simp add: parseInput_def flush_def)

lemma handleLine_tokens:
  assumes "parseInput (trim line) = Inr (command # params)"
  shows "handleLine E s line =
     (case dispatch E s command params of
        (Returned, s1) \<Rightarrow> Prompt (printCurrentDir s1)
      | (Threw e, s1) \<Rightarrow> Prompt (printCurrentDir (consoleLog ''Operation failed'' s1))
      | (Uncaught e, s1) \<Rightarrow> Crashed e s1
      | (Exited, s1) \<Rightarrow> Terminated 0 s1)"
proof -
  from assms have "trim line \<noteq> []" using parseInput_Nil by auto
  with assms show ?thesis by (simp add: handleLine_def)
qed

lemma param_simps:
  "param [] i = None" "param (x # xs) 0 = Some x" "param (x # y # ys) (Suc 0) = Some y"
  "param [x] (Suc 0) = None"
  by (simp_all add: param_def)

section \<open>Opening, truncating, piping\<close>

lemma openTrunc_canCreate:
  "canCreate d p \<Longrightarrow> openTrunc d p = Inr (AList.update p (File []) d)"
  by (simp add: canCreate_def openTrunc_def split: option.splits node.splits)

lemma openTrunc_not_canCreate:
  "\<not> canCreate d p \<Longrightarrow> \<exists>e. openTrunc d p = Inl e"
  by (simp add: canCreate_def openTrunc_def split: option.splits node.splits)

lemma openTrunc_Inr:
  "openTrunc d p = Inr d1 \<Longrightarrow> canCreate d p \<and> d1 = AList.update p (File []) d"
  by (auto simp: canCreate_def openTrunc_def split: option.splits node.splits if_splits)

lemma openTrunc_Inl: "openTrunc d p = Inl e \<Longrightarrow> \<not> canCreate d p"
  by (auto simp: canCreate_def openTrunc_def split: option.splits node.splits if_splits)

lemma readBytes_Inr: "readBytes d p = Inr c \<longleftrightarrow> map_of d p = Some (File c)"
  by (auto simp: readBytes_def split: option.splits node.splits)

lemma readBytes_Inl:
  "readBytes d p = Inl e \<longleftrightarrow>
     (map_of d p = None \<and> e = ENOENT) \<or> (map_of d p = Some Dir \<and> e = EISDIR)"
  by (auto simp: readBytes_def split: option.splits node.splits)

lemma readBytes_after_trunc:
  "readBytes (AList.update q (File []) d) p = (if p = q then Inr [] else readBytes d p)"
  by (simp add: readBytes_def update_conv')

text \<open>The four ways a pipe between two paths goes.\<close>

lemma pipeStreams_both_fail:
  assumes "readBytes (disk s) srcPath = Inl re" and "\<not> canCreate (disk s) destPath"
  shows "pipeStreams f srcPath destPath s =
           (Uncaught re, called [OpenRead srcPath, OpenWrite destPath] s)"
proof -
  from assms(2) obtain we where "openTrunc (disk s) destPath = Inl we"
    using openTrunc_not_canCreate by blast
  with assms(1) show ?thesis by (simp add: pipeStreams_def Let_def)
qed

lemma pipeStreams_read_fails:
  assumes "readBytes (disk s) srcPath = Inl re" and "canCreate (disk s) destPath"
  shows "pipeStreams f srcPath destPath s =
           (Uncaught re, (called [OpenRead srcPath, OpenWrite destPath] s)
                           \<lparr>disk := AList.update destPath (File []) (disk s)\<rparr>)"
  using assms by (simp add: pipeStreams_def Let_def openTrunc_canCreate)

lemma pipeStreams_write_fails:
  assumes "readBytes (disk s) srcPath = Inr c" and "\<not> canCreate (disk s) destPath"
  shows "\<exists>we. pipeStreams f srcPath destPath s =
           (Threw we, called [OpenRead srcPath, OpenWrite destPath] s)"
proof -
  from assms(2) obtain we where "openTrunc (disk s) destPath = Inl we"
    using openTrunc_not_canCreate by blast
  with assms(1) show ?thesis by (simp add: pipeStreams_def Let_def)
qed

lemma pipeStreams_flows:
  assumes "readBytes (disk s) srcPath = Inr c" and "canCreate (disk s) destPath"
  shows "pipeStreams f srcPath destPath s =
           (if snd (f (if srcPath = destPath then [] else c)) then Returned
            else Uncaught DecodeError,
            (called [OpenRead srcPath, OpenWrite destPath] s)
              \<lparr>disk := AList.update destPath
                         (File (fst (f (if srcPath = destPath then [] else c))))
                         (AList.update destPath (File []) (disk s))\<rparr>)"
  using assms
  by (simp add: pipeStreams_def Let_def openTrunc_canCreate readBytes_after_trunc
        split: prod.splits)

lemma pipeStreams_calls:
  "calls (snd (pipeStreams f srcPath destPath s)) =
     calls s @ [OpenRead srcPath, OpenWrite destPath]"
  by (simp add: pipeStreams_def called_def Let_def split: sum.splits prod.splits)

lemma pipeStreams_frame:
  "q \<noteq> destPath \<Longrightarrow>
     map_of (disk (snd (pipeStreams f srcPath destPath s))) q = map_of (disk s) q"
  by (auto simp: pipeStreams_def called_def Let_def update_conv'
           split: sum.splits prod.splits dest!: openTrunc_Inr)

lemma pipeStreams_console:
  "console (snd (pipeStreams f srcPath destPath s)) = console s"
  by (simp add: pipeStreams_def called_def Let_def split: sum.splits prod.splits)

section \<open>Running the definitions\<close>

lemmas evalExample =
  hostExample_def stateExample_def diskExample_def
  copyFile_def moveFile_def pipeStreams_def compressFile_def decompressFile_def
  renameFile_def createFile_def removeFile_def changeDirectory_def
  path_resolve_def path_basename_def basenameStr_def path_dirname_def normalizeString_def
  readBytes_def openTrunc_def unlinkSync_def renameSync_def canCreate_def
  called_def consoleLog_def printCurrentDir_def Let_def

section \<open>Creating a file\<close>

text \<open>
  C1, as the code has it. \<open>add name\<close> on a path that holds a regular file does not fail:
  \<open>fs.writeFileSync(fullPath, '')\<close> opens with flag \<open>'w'\<close>, so the file is truncated to
  zero length, no failure message is printed, only the line with the current directory
  follows, and nothing else on the disk changes.
\<close>

theorem add_existing_file_truncates:
  assumes "parseInput (trim line) = Inr (''add'' # name # rest)"
    and "path_resolve (procCwd E) [Some (currentDir s), Some name] = Inr fullPath"
    and "map_of (disk s) fullPath = Some (File c)"
  shows "\<exists>s'. handleLine E s line = Prompt s'
           \<and> console s' = console s @ [Log (''You are currently in '' @ currentDir s)]
           \<and> map_of (disk s') fullPath = Some (File [])
           \<and> (\<forall>q. q \<noteq> fullPath \<longrightarrow> map_of (disk s') q = map_of (disk s) q)
           \<and> calls s' = calls s @ [WriteFileSync fullPath]
           \<and> currentDir s' = currentDir s"
proof -
  have d: "dispatch E s ''add'' (name # rest) = createFile E s (Some name)"
    by (simp add: dispatch_def param_simps)
  have c: "createFile E s (Some name) =
      (Returned, (called [WriteFileSync fullPath] s)\<lparr>disk := AList.update fullPath (File []) (disk s)\<rparr>)"
    using assms(2,3) by (simp add: createFile_def openTrunc_def Let_def)
  show ?thesis
    unfolding handleLine_tokens [OF assms(1)] d c
    by (simp add: printCurrentDir_def consoleLog_def called_def update_conv')
qed

theorem add_existing_file_truncates_witness:
  "\<exists>s'. handleLine hostExample stateExample ''add a.txt'' = Prompt s'
      \<and> console s' = [Log ''You are currently in /home/u'']
      \<and> map_of (disk s') ''/home/u/a.txt'' = Some (File [])"
proof -
  have t: "parseInput (trim ''add a.txt'') = Inr [''add'', ''a.txt'']"
    by code_simp
  have r: "path_resolve (procCwd hostExample) [Some (currentDir stateExample), Some ''a.txt'']
             = Inr ''/home/u/a.txt''"
    by code_simp
  have m: "map_of (disk stateExample) ''/home/u/a.txt'' = Some (File ''abc'')"
    by code_simp
  have c: "console stateExample = []" and w: "currentDir stateExample = ''/home/u''"
    by (simp_all add: stateExample_def)
  from add_existing_file_truncates [OF t r m] c w show ?thesis by auto
qed

text \<open>C1 as the specification words it (the second \<open>add\<close> fails and the content
  stays) does not hold: on \<open>a.txt\<close> with the bytes \<open>abc\<close> no failure message is printed
  and the bytes are gone.\<close>

theorem add_existing_file_counterexample:
  "map_of (disk stateExample) ''/home/u/a.txt'' = Some (File ''abc'')
   \<and> handleLine hostExample stateExample ''add a.txt'' =
       Prompt \<lparr>currentDir = ''/home/u'',
               disk = [(''/'', Dir), (''/home'', Dir), (''/home/u'', Dir),
                       (''/home/u/a.txt'', File []), (''/home/u/sub'', Dir)],
               console = [Log ''You are currently in /home/u''],
               calls = [WriteFileSync ''/home/u/a.txt'']\<rparr>"
  by code_simp

section \<open>A line that cannot be tokenized\<close>

lemma parseInput_dquote: "parseInput [dquote] = Inl TypeError"
  by (simp add: parseInput_def flush_def)

lemma trim_dquote: "trim [dquote] = [dquote]"
  by (simp add: trim_def isSpace_def dquote_def)

lemma isSpace_dquote: "\<not> isSpace dquote"
  by (simp add: isSpace_def dquote_def)

lemma matchAll_in_progress: "cur \<noteq> [] \<Longrightarrow> matchAll s cur inq \<noteq> []"
  by (induction s arbitrary: cur inq) (auto simp: flush_def)

lemma matchAll_nothing:
  "matchAll s [] False = [] \<longleftrightarrow>
     filter (\<lambda>c. \<not> isSpace c) s = [] \<or> filter (\<lambda>c. \<not> isSpace c) s = [dquote]"
proof (induction s)
  case Nil
  show ?case by (simp add: flush_def)
next
  case (Cons c cs)
  show ?case
  proof (cases "c = dquote")
    case True
    show ?thesis
    proof (cases "dquote \<in> set cs")
      case q: True
      then have "filter (\<lambda>c. \<not> isSpace c) cs \<noteq> []"
        using isSpace_dquote by (auto simp: filter_empty_conv)
      with True q show ?thesis
        using matchAll_in_progress [of "[dquote]" cs True] isSpace_dquote by simp
    next
      case q: False
      have "filter (\<lambda>c. \<not> isSpace c) cs \<noteq> [dquote]"
      proof
        assume "filter (\<lambda>c. \<not> isSpace c) cs = [dquote]"
        then have "dquote \<in> set (filter (\<lambda>c. \<not> isSpace c) cs)" by simp
        with q show False by simp
      qed
      with True q Cons.IH show ?thesis
        using isSpace_dquote by (simp add: flush_def)
    qed
  next
    case False
    show ?thesis
    proof (cases "isSpace c")
      case True
      with False Cons.IH show ?thesis by (simp add: flush_def)
    next
      case s: False
      with False show ?thesis
        using matchAll_in_progress [of "[c]" cs False] by simp
    qed
  qed
qed

lemma trim_ends:
  assumes "trim s \<noteq> []"
  shows "\<not> isSpace (hd (trim s))" and "\<not> isSpace (last (trim s))"
proof -
  define t where "t = dropWhile isSpace s"
  have r: "trim s = rev (dropWhile isSpace (rev t))"
    by (simp add: trim_def t_def)
  from assms r have n: "dropWhile isSpace (rev t) \<noteq> []" by simp
  then have "\<not> isSpace (hd (dropWhile isSpace (rev t)))" by (rule hd_dropWhile)
  with n show "\<not> isSpace (last (trim s))" by (simp add: r last_rev)
  have "rev (takeWhile isSpace (rev t) @ dropWhile isSpace (rev t)) = rev (rev t)"
    by (simp only: takeWhile_dropWhile_id)
  then have e: "t = trim s @ rev (takeWhile isSpace (rev t))"
    by (simp only: rev_append rev_rev_ident r)
  from assms e have "hd t = hd (trim s)" by (metis hd_append2)
  moreover from assms e have "t \<noteq> []" by auto
  then have "\<not> isSpace (hd t)" unfolding t_def by (rule hd_dropWhile)
  ultimately show "\<not> isSpace (hd (trim s))" by simp
qed

lemma one_visible_character:
  assumes "filter (\<lambda>c. \<not> isSpace c) t = [x]"
    and "\<not> isSpace (hd t)" and "\<not> isSpace (last t)"
  shows "t = [x]"
proof (cases t)
  case Nil
  with assms(1) show ?thesis by simp
next
  case (Cons h rest)
  with assms(1,2) have h: "h = x" and f: "filter (\<lambda>c. \<not> isSpace c) rest = []"
    by simp_all
  have "rest = []"
  proof (rule ccontr)
    assume "rest \<noteq> []"
    with Cons assms(3) have "last rest \<in> set rest" "\<not> isSpace (last rest)" by simp_all
    with f show False by (auto simp: filter_empty_conv)
  qed
  with Cons h show ?thesis by simp
qed

text \<open>The lines the tokenizer cannot tokenize: after trimming, the line that is one
  double quote, and no other.\<close>

lemma untokenizable_iff:
  assumes "trim line \<noteq> []"
  shows "parseInput (trim line) = Inl TypeError \<longleftrightarrow> trim line = [dquote]"
proof
  assume "trim line = [dquote]"
  then show "parseInput (trim line) = Inl TypeError" by (simp add: parseInput_dquote)
next
  assume "parseInput (trim line) = Inl TypeError"
  then have "matchAll (trim line) [] False = []"
    by (simp add: parseInput_def split: list.splits)
  then have c: "filter (\<lambda>c. \<not> isSpace c) (trim line) = []
              \<or> filter (\<lambda>c. \<not> isSpace c) (trim line) = [dquote]"
    by (simp add: matchAll_nothing)
  from assms have "hd (trim line) \<in> set (trim line)" by simp
  with trim_ends(1) [OF assms] have "filter (\<lambda>c. \<not> isSpace c) (trim line) \<noteq> []"
    by (auto simp: filter_empty_conv)
  with c have "filter (\<lambda>c. \<not> isSpace c) (trim line) = [dquote]" by simp
  then show "trim line = [dquote]"
    using trim_ends [OF assms] by (rule one_visible_character)
qed

text \<open>
  C2, on the code. The line that is one double quote is not empty after trimming and has
  no match (it is the only such line), so \<open>parseInput\<close> throws before the \<open>try\<close>
  block is entered: the promise of the handler rejects with nothing to handle it, no
  message is printed, the prompt does not come back, and no later line is handled.
\<close>

theorem untokenizable_line_crashes:
  "handleLine E s [dquote] = Crashed TypeError s
   \<and> session E s ([dquote] # lines) = Crashed TypeError s"
  by (simp add: handleLine_def trim_dquote parseInput_dquote)

section \<open>Changing the directory\<close>

text \<open>
  C4. A line \<open>cd ...\<close> resolves its first parameter against the current directory. When
  the resolved path is a directory on the disk, the current directory becomes that path
  and nothing but the line with the new directory is printed. In every other case (the
  path is absent, it is a regular file, or the parameter is missing and \<open>path.resolve\<close>
  throws) the message \<open>Operation failed\<close> is printed, then the line with the current
  directory, which has not changed. The disk is never touched.
\<close>

theorem cd_enters_directory_or_fails:
  assumes "parseInput (trim line) = Inr (''cd'' # params)"
  shows "\<exists>s'. handleLine E s line = Prompt s' \<and> disk s' = disk s \<and>
           (case path_resolve (procCwd E) [Some (currentDir s), param params 0] of
              Inr newPath \<Rightarrow>
                if map_of (disk s) newPath = Some Dir
                then currentDir s' = newPath
                     \<and> console s' = console s @ [Log (''You are currently in '' @ newPath)]
                else currentDir s' = currentDir s
                     \<and> console s' = console s @ [Log ''Operation failed'',
                                       Log (''You are currently in '' @ currentDir s)]
            | Inl e \<Rightarrow>
                currentDir s' = currentDir s
                \<and> console s' = console s @ [Log ''Operation failed'',
                                  Log (''You are currently in '' @ currentDir s)])"
proof -
  have d: "dispatch E s ''cd'' params = changeDirectory E s (param params 0)"
    by (simp add: dispatch_def)
  show ?thesis
    unfolding handleLine_tokens [OF assms] d
    by (auto simp: changeDirectory_def printCurrentDir_def consoleLog_def called_def Let_def
             split: sum.splits option.splits node.splits)
qed

theorem cd_enters_directory_or_fails_witness:
  "(\<exists>s'. handleLine hostExample stateExample ''cd sub'' = Prompt s'
        \<and> currentDir s' = ''/home/u/sub''
        \<and> console s' = [Log ''You are currently in /home/u/sub''])
   \<and> (\<exists>s'. handleLine hostExample stateExample ''cd a.txt'' = Prompt s'
        \<and> currentDir s' = ''/home/u''
        \<and> console s' = [Log ''Operation failed'', Log ''You are currently in /home/u''])"
proof -
  have t1: "parseInput (trim ''cd sub'') = Inr [''cd'', ''sub'']"
    by code_simp
  have r1: "path_resolve (procCwd hostExample) [Some (currentDir stateExample), param [''sub''] 0]
              = Inr ''/home/u/sub''"
    by code_simp
  have m1: "map_of (disk stateExample) ''/home/u/sub'' = Some Dir"
    by code_simp
  have t2: "parseInput (trim ''cd a.txt'') = Inr [''cd'', ''a.txt'']"
    by code_simp
  have r2: "path_resolve (procCwd hostExample) [Some (currentDir stateExample), param [''a.txt''] 0]
              = Inr ''/home/u/a.txt''"
    by code_simp
  have m2: "map_of (disk stateExample) ''/home/u/a.txt'' = Some (File ''abc'')"
    by code_simp
  have c: "console stateExample = []" and w: "currentDir stateExample = ''/home/u''"
    by (simp_all add: stateExample_def)
  from cd_enters_directory_or_fails [OF t1, of hostExample stateExample] r1 m1 c w
  have a: "\<exists>s'. handleLine hostExample stateExample ''cd sub'' = Prompt s'
        \<and> currentDir s' = ''/home/u/sub''
        \<and> console s' = [Log ''You are currently in /home/u/sub'']"
    by auto
  from cd_enters_directory_or_fails [OF t2, of hostExample stateExample] r2 m2 c w
  have b: "\<exists>s'. handleLine hostExample stateExample ''cd a.txt'' = Prompt s'
        \<and> currentDir s' = ''/home/u''
        \<and> console s' = [Log ''Operation failed'', Log ''You are currently in /home/u'']"
    by auto
  from a b show ?thesis by blast
qed

section \<open>The display name\<close>

lemma split_no_separator: "d \<notin> set w \<Longrightarrow> split d w = [w]"
  by (induction w) auto

lemma split_append_separator:
  "d \<notin> set w \<Longrightarrow> split d (w @ d # rest) = w # split d rest"
  by (induction w) auto

lemma username_of_flag:
  assumes "usernameArg args = Some (''--username='' @ name)" and "CHR ''='' \<notin> set name"
  shows "username args = name"
proof -
  have "split (CHR ''='') (''--username'' @ CHR ''='' # name) = [''--username'', name]"
    using assms(2) by (subst split_append_separator) (simp_all add: split_no_separator)
  then show ?thesis using assms(1) by (simp add: username_def)
qed

text \<open>
  C7, as the code has it. The display name is taken from the first argument that starts
  with \<open>--username=\<close>: when the text after that prefix holds no further \<open>=\<close>, the
  greeting printed at start-up and the farewell printed by \<open>exitProgram\<close> carry exactly
  that text (which may be empty); when no argument starts with the prefix, they carry
  \<open>Anonymous\<close>.
\<close>

theorem username_from_flag_or_default:
  "(usernameArg (argv E) = Some (''--username='' @ name) \<and> CHR ''='' \<notin> set name \<longrightarrow>
      console (startup E d) =
        [Log (''Welcome to the File Manager, '' @ name @ ''!''),
         Log (''You are currently in '' @ homedir E)]
      \<and> exitProgram E s =
        (Exited, consoleLog (''Thank you for using File Manager, '' @ name @ '', goodbye!'') s))
   \<and> (usernameArg (argv E) = None \<longrightarrow>
      console (startup E d) =
        [Log ''Welcome to the File Manager, Anonymous!'',
         Log (''You are currently in '' @ homedir E)]
      \<and> exitProgram E s =
        (Exited, consoleLog ''Thank you for using File Manager, Anonymous, goodbye!'' s))"
  by (auto simp: startup_def exitProgram_def greeting_def farewell_def printCurrentDir_def
        consoleLog_def username_of_flag) (simp_all add: username_def)

theorem username_from_flag_or_default_witness:
  "usernameArg (argv hostExample) = Some (''--username='' @ ''Bob'')
   \<and> console (startup hostExample diskExample) =
        [Log ''Welcome to the File Manager, Bob!'', Log ''You are currently in /home/u'']
   \<and> usernameArg (argv (hostExample\<lparr>argv := [''-v'']\<rparr>)) = None
   \<and> console (startup (hostExample\<lparr>argv := [''-v'']\<rparr>) diskExample) =
        [Log ''Welcome to the File Manager, Anonymous!'', Log ''You are currently in /home/u'']"
proof -
  have a: "usernameArg (argv hostExample) = Some (''--username='' @ ''Bob'')"
    by code_simp
  have b: "usernameArg (argv (hostExample\<lparr>argv := [''-v'']\<rparr>)) = None"
    by code_simp
  have h: "homedir hostExample = ''/home/u''"
    by (simp add: hostExample_def)
  from username_from_flag_or_default [of hostExample "''Bob''" diskExample stateExample] a h
  have 1: "console (startup hostExample diskExample) =
        [Log ''Welcome to the File Manager, Bob!'', Log ''You are currently in /home/u'']"
    by simp
  from username_from_flag_or_default
         [of "hostExample\<lparr>argv := [''-v'']\<rparr>" "''Bob''" diskExample stateExample] b h
  have 2: "console (startup (hostExample\<lparr>argv := [''-v'']\<rparr>) diskExample) =
        [Log ''Welcome to the File Manager, Anonymous!'', Log ''You are currently in /home/u'']"
    by simp
  from a b 1 2 show ?thesis by blast
qed

text \<open>C7 as the specification words it fails in two ways. A flag with no value,
  \<open>--username=\<close>, gives the empty name and not \<open>Anonymous\<close>.\<close>

theorem username_empty_value_counterexample:
  "username [''--username=''] = [] \<and> username [''--username=''] \<noteq> ''Anonymous''"
  by (simp add: username_def usernameArg_def startsWith_def)

text \<open>And a value is cut at its first \<open>=\<close>.\<close>

lemma username_cut_at_equals: "username [''--username=a=b''] = ''a''"
  by (simp add: username_def usernameArg_def startsWith_def)

section \<open>The current directory is a frame of every other command\<close>

lemma pipeStreams_currentDir:
  "currentDir (snd (pipeStreams f srcPath destPath s)) = currentDir s"
  by (simp add: pipeStreams_def called_def Let_def split: sum.splits prod.splits)

lemma listDirectory_currentDir: "currentDir (snd (listDirectory E s)) = currentDir s"
  by (simp add: listDirectory_def called_def Let_def split: sum.splits)

lemma readFile_currentDir: "currentDir (snd (readFile E s a)) = currentDir s"
  by (simp add: readFile_def called_def Let_def split: sum.splits)

lemma createFile_currentDir: "currentDir (snd (createFile E s a)) = currentDir s"
  by (simp add: createFile_def called_def Let_def split: sum.splits)

lemma createDirectory_currentDir: "currentDir (snd (createDirectory E s a)) = currentDir s"
  by (simp add: createDirectory_def called_def Let_def split: sum.splits)

lemma renameFile_currentDir: "currentDir (snd (renameFile E s a b)) = currentDir s"
  by (simp add: renameFile_def called_def Let_def split: sum.splits)

lemma copyFile_currentDir: "currentDir (snd (copyFile E s a b)) = currentDir s"
  by (simp add: copyFile_def pipeStreams_currentDir split: sum.splits)

lemma moveFile_currentDir: "currentDir (snd (moveFile E s a b)) = currentDir s"
proof (cases "copyFile E s a b")
  case (Pair c s1)
  then have "currentDir s1 = currentDir s"
    using copyFile_currentDir [of E s a b] by simp
  with Pair show ?thesis
    by (cases c) (simp_all add: moveFile_def called_def Let_def split: sum.splits)
qed

lemma removeFile_currentDir: "currentDir (snd (removeFile E s a)) = currentDir s"
  by (simp add: removeFile_def called_def Let_def split: sum.splits)

lemma getOSInfo_currentDir: "currentDir (snd (getOSInfo E s a)) = currentDir s"
  by (simp add: getOSInfo_def consoleLog_def)

lemma calculateHash_currentDir: "currentDir (snd (calculateHash E s a)) = currentDir s"
  by (simp add: calculateHash_def called_def consoleLog_def Let_def split: sum.splits)

lemma compressFile_currentDir: "currentDir (snd (compressFile E s a b)) = currentDir s"
  by (simp add: compressFile_def pipeStreams_currentDir split: sum.splits)

lemma decompressFile_currentDir: "currentDir (snd (decompressFile E s a b)) = currentDir s"
  by (simp add: decompressFile_def pipeStreams_currentDir split: sum.splits)

lemma exitProgram_currentDir: "currentDir (snd (exitProgram E s)) = currentDir s"
  by (simp add: exitProgram_def consoleLog_def)

lemma dispatch_currentDir:
  assumes "command \<noteq> ''up''" and "command \<noteq> ''cd''"
  shows "currentDir (snd (dispatch E s command params)) = currentDir s"
  using assms
  by (simp add: dispatch_def listDirectory_currentDir readFile_currentDir
        createFile_currentDir createDirectory_currentDir renameFile_currentDir
        copyFile_currentDir moveFile_currentDir removeFile_currentDir getOSInfo_currentDir
        calculateHash_currentDir compressFile_currentDir decompressFile_currentDir
        exitProgram_currentDir consoleLog_def)

text \<open>
  C5. Whatever a line that is neither an \<open>up\<close> nor a \<open>cd\<close> command does (it returns,
  it fails, it ends the process or brings it down, it is empty or cannot be tokenized),
  the current directory after it is the one before it.
\<close>

theorem only_up_and_cd_move_the_cursor:
  assumes "\<forall>params. parseInput (trim line) \<noteq> Inr (''up'' # params)"
    and "\<forall>params. parseInput (trim line) \<noteq> Inr (''cd'' # params)"
  shows "currentDir (stateOf (handleLine E s line)) = currentDir s"
proof (cases "parseInput (trim line)")
  case (Inl e)
  then show ?thesis by (simp add: handleLine_def Let_def)
next
  case (Inr toks)
  show ?thesis
  proof (cases toks)
    case Nil
    with Inr show ?thesis
      by (simp add: handleLine_def Let_def printCurrentDir_def consoleLog_def)
  next
    case (Cons command params)
    with Inr assms have n: "command \<noteq> ''up''" "command \<noteq> ''cd''" by auto
    obtain c s1 where r: "dispatch E s command params = (c, s1)"
      by (cases "dispatch E s command params")
    with dispatch_currentDir [OF n, of E s params] have "currentDir s1 = currentDir s"
      by simp
    moreover from Inr Cons have "parseInput (trim line) = Inr (command # params)" by simp
    ultimately show ?thesis
      using r by (cases c) (simp_all add: handleLine_tokens printCurrentDir_def consoleLog_def)
  qed
qed

theorem only_up_and_cd_move_the_cursor_witness:
  "currentDir (stateOf (handleLine hostExample stateExample ''mv a.txt sub'')) = ''/home/u''
   \<and> currentDir (stateOf (handleLine hostExample stateExample ''rm ghost'')) = ''/home/u''"
proof -
  have t1: "parseInput (trim ''mv a.txt sub'') = Inr [''mv'', ''a.txt'', ''sub'']"
    by code_simp
  have t2: "parseInput (trim ''rm ghost'') = Inr [''rm'', ''ghost'']"
    by code_simp
  have w: "currentDir stateExample = ''/home/u''"
    by (simp add: stateExample_def)
  have "currentDir (stateOf (handleLine hostExample stateExample ''mv a.txt sub'')) = ''/home/u''"
    using only_up_and_cd_move_the_cursor [of "''mv a.txt sub''" hostExample stateExample] t1 w
    by simp
  moreover
  have "currentDir (stateOf (handleLine hostExample stateExample ''rm ghost'')) = ''/home/u''"
    using only_up_and_cd_move_the_cursor [of "''rm ghost''" hostExample stateExample] t2 w
    by simp
  ultimately show ?thesis by blast
qed

section \<open>Moving a file\<close>

lemma copyFile_calls:
  "\<exists>cs. calls (snd (copyFile E s src destDir)) = calls s @ cs \<and> (\<forall>p. UnlinkSync p \<notin> set cs)"
  by (auto simp: copyFile_def pipeStreams_calls split: sum.splits)

lemma copyFile_fails_keeps_source:
  assumes "copyFile E s src destDir = (c, s1)" and "c \<noteq> Returned"
    and "path_resolve (procCwd E) [Some (currentDir s), src] = Inr srcPath"
    and "map_of (disk s) srcPath = Some n"
  shows "map_of (disk s1) srcPath = Some n"
proof (cases "path_basename src")
  case (Inl e)
  with assms show ?thesis by (simp add: copyFile_def)
next
  case (Inr base)
  show ?thesis
  proof (cases "path_resolve (procCwd E) [Some (currentDir s), destDir, Some base]")
    case (Inl e)
    with assms Inr show ?thesis by (simp add: copyFile_def)
  next
    case dest: (Inr destPath)
    with assms(1,3) Inr
    have p: "pipeStreams (\<lambda>b. (b, True)) srcPath destPath s = (c, s1)"
      by (simp add: copyFile_def)
    show ?thesis
    proof (cases "canCreate (disk s) destPath")
      case False
      show ?thesis
      proof (cases "readBytes (disk s) srcPath")
        case (Inl re)
        from pipeStreams_both_fail [OF Inl False, of "\<lambda>b. (b, True)"] p
        have "s1 = called [OpenRead srcPath, OpenWrite destPath] s" by simp
        with assms(4) show ?thesis by (simp add: called_def)
      next
        case (Inr bytes)
        from pipeStreams_write_fails [OF Inr False, of "\<lambda>b. (b, True)"] p
        have "s1 = called [OpenRead srcPath, OpenWrite destPath] s" by auto
        with assms(4) show ?thesis by (simp add: called_def)
      qed
    next
      case True
      show ?thesis
      proof (cases "readBytes (disk s) srcPath")
        case (Inr bytes)
        from pipeStreams_flows [OF Inr True, of "\<lambda>b. (b, True)"] p assms(2) show ?thesis by simp
      next
        case (Inl re)
        with assms(4) have "map_of (disk s) srcPath = Some Dir"
          by (auto simp: readBytes_Inl)
        with True have "srcPath \<noteq> destPath" by (auto simp: canCreate_def)
        from pipeStreams_frame [OF this, of "\<lambda>b. (b, True)" srcPath s] p assms(4)
        show ?thesis by simp
      qed
    qed
  qed
qed

text \<open>
  C3. \<open>moveFile\<close> awaits \<open>copyFile\<close> first. When the copy has returned, the one call that
  follows is \<open>unlinkSync\<close> on the resolved source, on the disk as the copy left it. When
  the copy has not returned (a path could not be resolved, the destination could not be
  opened, or the source could not be read), \<open>moveFile\<close> ends as the copy did, in the
  state the copy left: no \<open>unlinkSync\<close> is among the calls made, and a source that was on
  the disk is there as it was.
\<close>

theorem move_deletes_source_only_after_copy:
  assumes "copyFile E s src destDir = (c, s1)"
  shows "if c = Returned
         then \<exists>srcPath. path_resolve (procCwd E) [Some (currentDir s), src] = Inr srcPath
                \<and> calls (snd (moveFile E s src destDir)) = calls s1 @ [UnlinkSync srcPath]
                \<and> disk (snd (moveFile E s src destDir)) =
                    (case unlinkSync (disk s1) srcPath of Inl e \<Rightarrow> disk s1 | Inr d \<Rightarrow> d)
         else moveFile E s src destDir = (c, s1)
                \<and> (\<exists>cs. calls s1 = calls s @ cs \<and> (\<forall>p. UnlinkSync p \<notin> set cs))
                \<and> (\<forall>srcPath n. path_resolve (procCwd E) [Some (currentDir s), src] = Inr srcPath
                       \<and> map_of (disk s) srcPath = Some n
                     \<longrightarrow> map_of (disk s1) srcPath = Some n)"
proof (cases "c = Returned")
  case True
  have cd: "currentDir s1 = currentDir s"
    using copyFile_currentDir [of E s src destDir] assms by simp
  have "\<exists>srcPath. path_resolve (procCwd E) [Some (currentDir s), src] = Inr srcPath"
  proof (cases "path_resolve (procCwd E) [Some (currentDir s), src]")
    case (Inl e)
    with assms True show ?thesis by (simp add: copyFile_def)
  next
    case (Inr srcPath)
    then show ?thesis by simp
  qed
  then obtain srcPath
    where r: "path_resolve (procCwd E) [Some (currentDir s), src] = Inr srcPath"
    by blast
  have m: "moveFile E s src destDir =
      (case unlinkSync (disk s1) srcPath of
         Inl e \<Rightarrow> (Threw e, called [UnlinkSync srcPath] s1)
       | Inr d \<Rightarrow> (Returned, (called [UnlinkSync srcPath] s1)\<lparr>disk := d\<rparr>))"
    using assms True cd r by (simp add: moveFile_def Let_def)
  show ?thesis
    using True r by (simp add: m called_def split: sum.splits)
next
  case False
  then have m: "moveFile E s src destDir = (c, s1)"
    using assms by (cases c) (simp_all add: moveFile_def)
  from copyFile_calls [of E s src destDir] assms
  have k: "\<exists>cs. calls s1 = calls s @ cs \<and> (\<forall>p. UnlinkSync p \<notin> set cs)" by simp
  from False m k copyFile_fails_keeps_source [OF assms False] show ?thesis by auto
qed

theorem move_deletes_source_only_after_copy_witness:
  "calls (snd (moveFile hostExample stateExample (Some ''a.txt'') (Some ''sub''))) =
      [OpenRead ''/home/u/a.txt'', OpenWrite ''/home/u/sub/a.txt'', UnlinkSync ''/home/u/a.txt'']
   \<and> moveFile hostExample stateExample (Some ''a.txt'') (Some ''nodir'') =
       (Threw ENOENT,
        stateExample\<lparr>calls := [OpenRead ''/home/u/a.txt'', OpenWrite ''/home/u/nodir/a.txt'']\<rparr>)
   \<and> map_of (disk stateExample) ''/home/u/a.txt'' = Some (File ''abc'')"
proof -
  have c1: "copyFile hostExample stateExample (Some ''a.txt'') (Some ''sub'') =
      (Returned,
       stateExample\<lparr>disk := diskExample @ [(''/home/u/sub/a.txt'', File ''abc'')],
                    calls := [OpenRead ''/home/u/a.txt'', OpenWrite ''/home/u/sub/a.txt'']\<rparr>)"
    by (simp add: evalExample)
  have c2: "copyFile hostExample stateExample (Some ''a.txt'') (Some ''nodir'') =
      (Threw ENOENT,
       stateExample\<lparr>calls := [OpenRead ''/home/u/a.txt'', OpenWrite ''/home/u/nodir/a.txt'']\<rparr>)"
    by (simp add: evalExample)
  have r: "path_resolve (procCwd hostExample) [Some (currentDir stateExample), Some ''a.txt'']
             = Inr ''/home/u/a.txt''"
    by code_simp
  have m: "map_of (disk stateExample) ''/home/u/a.txt'' = Some (File ''abc'')"
    by code_simp
  from move_deletes_source_only_after_copy [OF c1] r
  have a: "calls (snd (moveFile hostExample stateExample (Some ''a.txt'') (Some ''sub''))) =
      [OpenRead ''/home/u/a.txt'', OpenWrite ''/home/u/sub/a.txt'', UnlinkSync ''/home/u/a.txt'']"
    by simp
  from move_deletes_source_only_after_copy [OF c2]
  have b: "moveFile hostExample stateExample (Some ''a.txt'') (Some ''nodir'') =
       (Threw ENOENT,
        stateExample\<lparr>calls := [OpenRead ''/home/u/a.txt'', OpenWrite ''/home/u/nodir/a.txt'']\<rparr>)"
    by simp
  from a b m show ?thesis by blast
qed

section \<open>Copying a file\<close>

lemma copyFile_paths:
  assumes "path_resolve (procCwd E) [Some (currentDir s), Some src] = Inr srcPath"
    and "path_resolve (procCwd E) [Some (currentDir s), Some destDir, Some (basenameStr src)]
           = Inr destPath"
  shows "copyFile E s (Some src) (Some destDir) =
           pipeStreams (\<lambda>b. (b, True)) srcPath destPath s"
  using assms by (simp add: copyFile_def path_basename_def)

text \<open>One \<open>cp\<close> line whose source is a regular file, whose target can be opened and is
  not the source itself.\<close>

lemma cp_line_copies:
  assumes "parseInput (trim line) = Inr (''cp'' # src # destDir # rest)"
    and "path_resolve (procCwd E) [Some (currentDir s), Some src] = Inr srcPath"
    and "path_resolve (procCwd E) [Some (currentDir s), Some destDir, Some (basenameStr src)]
           = Inr destPath"
    and "map_of (disk s) srcPath = Some (File c)"
    and "canCreate (disk s) destPath"
    and "destPath \<noteq> srcPath"
  shows "\<exists>s1. handleLine E s line = Prompt s1
           \<and> currentDir s1 = currentDir s
           \<and> console s1 = console s @ [Log (''You are currently in '' @ currentDir s)]
           \<and> map_of (disk s1) destPath = Some (File c)
           \<and> (\<forall>q. q \<noteq> destPath \<longrightarrow> map_of (disk s1) q = map_of (disk s) q)"
proof -
  have d: "dispatch E s ''cp'' (src # destDir # rest) = copyFile E s (Some src) (Some destDir)"
    by (simp add: dispatch_def param_simps)
  have r: "readBytes (disk s) srcPath = Inr c"
    using assms(4) by (simp add: readBytes_Inr)
  have p: "pipeStreams (\<lambda>b. (b, True)) srcPath destPath s =
      (Returned, (called [OpenRead srcPath, OpenWrite destPath] s)
         \<lparr>disk := AList.update destPath (File c)
                    (AList.update destPath (File []) (disk s))\<rparr>)"
    using pipeStreams_flows [OF r assms(5), of "\<lambda>b. (b, True)"] assms(6) by simp
  show ?thesis
    unfolding handleLine_tokens [OF assms(1)] d copyFile_paths [OF assms(2,3)] p
    by (simp add: printCurrentDir_def consoleLog_def called_def update_conv')
qed

text \<open>
  C6, as the code has it. When the source is a regular file, the target
  \<open>destDir/basename(src)\<close> (both resolved against the current directory) can be opened
  for writing (it is not a directory, and it holds a file or lies in a directory) and is
  not the source path itself, a \<open>cp\<close> line ends without a failure message, the target
  holds the bytes of the source whatever it held before, and nothing else on the disk
  changes; the same line once more does the same.
\<close>

theorem cp_writes_source_bytes_to_target:
  assumes "parseInput (trim line) = Inr (''cp'' # src # destDir # rest)"
    and "path_resolve (procCwd E) [Some (currentDir s), Some src] = Inr srcPath"
    and "path_resolve (procCwd E) [Some (currentDir s), Some destDir, Some (basenameStr src)]
           = Inr destPath"
    and "map_of (disk s) srcPath = Some (File c)"
    and "canCreate (disk s) destPath"
    and "destPath \<noteq> srcPath"
  shows "\<exists>s1 s2. handleLine E s line = Prompt s1
           \<and> console s1 = console s @ [Log (''You are currently in '' @ currentDir s)]
           \<and> map_of (disk s1) destPath = Some (File c)
           \<and> (\<forall>q. q \<noteq> destPath \<longrightarrow> map_of (disk s1) q = map_of (disk s) q)
           \<and> handleLine E s1 line = Prompt s2
           \<and> console s2 = console s1 @ [Log (''You are currently in '' @ currentDir s)]
           \<and> map_of (disk s2) destPath = Some (File c)
           \<and> (\<forall>q. q \<noteq> destPath \<longrightarrow> map_of (disk s2) q = map_of (disk s) q)"
proof -
  from cp_line_copies [OF assms] obtain s1 where
    1: "handleLine E s line = Prompt s1" "currentDir s1 = currentDir s"
       "console s1 = console s @ [Log (''You are currently in '' @ currentDir s)]"
       "map_of (disk s1) destPath = Some (File c)"
       "\<forall>q. q \<noteq> destPath \<longrightarrow> map_of (disk s1) q = map_of (disk s) q"
    by blast
  have a2: "path_resolve (procCwd E) [Some (currentDir s1), Some src] = Inr srcPath"
    and a3: "path_resolve (procCwd E)
               [Some (currentDir s1), Some destDir, Some (basenameStr src)] = Inr destPath"
    using assms(2,3) 1(2) by simp_all
  have a4: "map_of (disk s1) srcPath = Some (File c)"
    using 1(5) assms(4,6) by simp
  have a5: "canCreate (disk s1) destPath"
    using 1(4) by (simp add: canCreate_def)
  from cp_line_copies [OF assms(1) a2 a3 a4 a5 assms(6)] obtain s2 where
    2: "handleLine E s1 line = Prompt s2"
       "console s2 = console s1 @ [Log (''You are currently in '' @ currentDir s1)]"
       "map_of (disk s2) destPath = Some (File c)"
       "\<forall>q. q \<noteq> destPath \<longrightarrow> map_of (disk s2) q = map_of (disk s1) q"
    by blast
  from 1 2 show ?thesis by auto
qed

theorem cp_writes_source_bytes_to_target_witness:
  "\<exists>s1 s2. handleLine hostExample stateExample ''cp a.txt sub'' = Prompt s1
      \<and> map_of (disk s1) ''/home/u/sub/a.txt'' = Some (File ''abc'')
      \<and> handleLine hostExample s1 ''cp a.txt sub'' = Prompt s2
      \<and> map_of (disk s2) ''/home/u/sub/a.txt'' = Some (File ''abc'')"
proof -
  have t: "parseInput (trim ''cp a.txt sub'') = Inr [''cp'', ''a.txt'', ''sub'']"
    by code_simp
  have r1: "path_resolve (procCwd hostExample) [Some (currentDir stateExample), Some ''a.txt'']
              = Inr ''/home/u/a.txt''"
    by code_simp
  have r2: "path_resolve (procCwd hostExample)
              [Some (currentDir stateExample), Some ''sub'', Some (basenameStr ''a.txt'')]
              = Inr ''/home/u/sub/a.txt''"
    by code_simp
  have m: "map_of (disk stateExample) ''/home/u/a.txt'' = Some (File ''abc'')"
    by code_simp
  have w: "canCreate (disk stateExample) ''/home/u/sub/a.txt''"
    by code_simp
  have n: "''/home/u/sub/a.txt'' \<noteq> ''/home/u/a.txt''"
    by simp
  from cp_writes_source_bytes_to_target [OF t r1 r2 m w n] show ?thesis by blast
qed

text \<open>C6 as the specification words it, for every invocation, fails where the
  target is the source: \<open>cp a.txt .\<close> in the directory of \<open>a.txt\<close> opens the file for
  writing before a byte of it is read, ends without a failure message, and leaves the
  file empty instead of holding its three bytes.\<close>

theorem cp_onto_itself_counterexample:
  "map_of (disk stateExample) ''/home/u/a.txt'' = Some (File ''abc'')
   \<and> path_resolve (procCwd hostExample)
        [Some (currentDir stateExample), Some ''.'', Some (basenameStr ''a.txt'')]
        = Inr ''/home/u/a.txt''
   \<and> handleLine hostExample stateExample ''cp a.txt .'' =
       Prompt \<lparr>currentDir = ''/home/u'',
               disk = [(''/'', Dir), (''/home'', Dir), (''/home/u'', Dir),
                       (''/home/u/a.txt'', File []), (''/home/u/sub'', Dir)],
               console = [Log ''You are currently in /home/u''],
               calls = [OpenRead ''/home/u/a.txt'', OpenWrite ''/home/u/a.txt'']\<rparr>"
  by code_simp

section \<open>Copying or moving a file that is not there\<close>

text \<open>
  C8, as the code has it. For a \<open>cp\<close> or \<open>mv\<close> line whose source is not on the disk and
  whose target \<open>destDir/basename(src)\<close> can be opened for writing, both streams are
  opened, the target is left as a file of zero length (created, or truncated), nothing
  else on the disk changes, and the \<open>ENOENT\<close> of the read stream, which has no listener,
  ends the process; \<open>mv\<close> deletes nothing.
\<close>

theorem missing_source_leaves_empty_target:
  assumes "parseInput (trim line) = Inr (command # src # destDir # rest)"
    and "command = ''cp'' \<or> command = ''mv''"
    and "path_resolve (procCwd E) [Some (currentDir s), Some src] = Inr srcPath"
    and "path_resolve (procCwd E) [Some (currentDir s), Some destDir, Some (basenameStr src)]
           = Inr destPath"
    and "map_of (disk s) srcPath = None"
    and "canCreate (disk s) destPath"
  shows "\<exists>s1. handleLine E s line = Crashed ENOENT s1
           \<and> map_of (disk s1) destPath = Some (File [])
           \<and> (\<forall>q. q \<noteq> destPath \<longrightarrow> map_of (disk s1) q = map_of (disk s) q)
           \<and> calls s1 = calls s @ [OpenRead srcPath, OpenWrite destPath]
           \<and> console s1 = console s"
proof -
  have r: "readBytes (disk s) srcPath = Inl ENOENT"
    using assms(5) by (simp add: readBytes_def)
  have c: "copyFile E s (Some src) (Some destDir) =
      (Uncaught ENOENT, (called [OpenRead srcPath, OpenWrite destPath] s)
                          \<lparr>disk := AList.update destPath (File []) (disk s)\<rparr>)"
    unfolding copyFile_paths [OF assms(3,4)]
    using pipeStreams_read_fails [OF r assms(6)] by simp
  have m: "moveFile E s (Some src) (Some destDir) = copyFile E s (Some src) (Some destDir)"
    by (simp add: moveFile_def c)
  have d: "dispatch E s command (src # destDir # rest) = copyFile E s (Some src) (Some destDir)"
    using assms(2) m by (auto simp: dispatch_def param_simps)
  show ?thesis
    unfolding handleLine_tokens [OF assms(1)] d c
    by (simp add: called_def update_conv')
qed

theorem missing_source_leaves_empty_target_witness:
  "(\<exists>s1. handleLine hostExample stateExample ''cp ghost sub'' = Crashed ENOENT s1
       \<and> map_of (disk s1) ''/home/u/sub/ghost'' = Some (File [])
       \<and> calls s1 = [OpenRead ''/home/u/ghost'', OpenWrite ''/home/u/sub/ghost''])
   \<and> (\<exists>s1. handleLine hostExample stateExample ''mv ghost sub'' = Crashed ENOENT s1
       \<and> map_of (disk s1) ''/home/u/sub/ghost'' = Some (File [])
       \<and> calls s1 = [OpenRead ''/home/u/ghost'', OpenWrite ''/home/u/sub/ghost''])"
proof -
  have t1: "parseInput (trim ''cp ghost sub'') = Inr [''cp'', ''ghost'', ''sub'']"
    by code_simp
  have t2: "parseInput (trim ''mv ghost sub'') = Inr [''mv'', ''ghost'', ''sub'']"
    by code_simp
  have r1: "path_resolve (procCwd hostExample) [Some (currentDir stateExample), Some ''ghost'']
              = Inr ''/home/u/ghost''"
    by code_simp
  have r2: "path_resolve (procCwd hostExample)
              [Some (currentDir stateExample), Some ''sub'', Some (basenameStr ''ghost'')]
              = Inr ''/home/u/sub/ghost''"
    by code_simp
  have m: "map_of (disk stateExample) ''/home/u/ghost'' = None"
    by code_simp
  have w: "canCreate (disk stateExample) ''/home/u/sub/ghost''"
    by code_simp
  have k: "calls stateExample = []"
    by (simp add: stateExample_def)
  from missing_source_leaves_empty_target [OF t1 _ r1 r2 m w] k
  have a: "\<exists>s1. handleLine hostExample stateExample ''cp ghost sub'' = Crashed ENOENT s1
       \<and> map_of (disk s1) ''/home/u/sub/ghost'' = Some (File [])
       \<and> calls s1 = [OpenRead ''/home/u/ghost'', OpenWrite ''/home/u/sub/ghost'']"
    by auto
  from missing_source_leaves_empty_target [OF t2 _ r1 r2 m w] k
  have b: "\<exists>s1. handleLine hostExample stateExample ''mv ghost sub'' = Crashed ENOENT s1
       \<and> map_of (disk s1) ''/home/u/sub/ghost'' = Some (File [])
       \<and> calls s1 = [OpenRead ''/home/u/ghost'', OpenWrite ''/home/u/sub/ghost'']"
    by auto
  from a b show ?thesis by blast
qed

text \<open>C8 as it is worded, for every invocation with a missing source, fails where the
  destination directory is missing too: after \<open>cp ghost nodir\<close> there is no file at the
  target, and the disk is as it was.\<close>

theorem missing_source_and_directory_counterexample:
  "map_of (disk stateExample) ''/home/u/ghost'' = None
   \<and> path_resolve (procCwd hostExample)
        [Some (currentDir stateExample), Some ''nodir'', Some (basenameStr ''ghost'')]
        = Inr ''/home/u/nodir/ghost''
   \<and> handleLine hostExample stateExample ''cp ghost nodir'' =
       Crashed ENOENT
         \<lparr>currentDir = ''/home/u'',
          disk = [(''/'', Dir), (''/home'', Dir), (''/home/u'', Dir),
                  (''/home/u/a.txt'', File ''abc''), (''/home/u/sub'', Dir)],
          console = [],
          calls = [OpenRead ''/home/u/ghost'', OpenWrite ''/home/u/nodir/ghost'']\<rparr>
   \<and> map_of (disk (stateOf (handleLine hostExample stateExample ''cp ghost nodir'')))
        ''/home/u/nodir/ghost'' = None"
  by code_simp

section \<open>Compressing and decompressing\<close>

lemma handleLine_disk_calls:
  assumes "parseInput (trim line) = Inr (command # params)"
  shows "disk (stateOf (handleLine E s line)) = disk (snd (dispatch E s command params))"
    and "calls (stateOf (handleLine E s line)) = calls (snd (dispatch E s command params))"
proof -
  obtain c s1 where r: "dispatch E s command params = (c, s1)"
    by (cases "dispatch E s command params")
  show "disk (stateOf (handleLine E s line)) = disk (snd (dispatch E s command params))"
    unfolding handleLine_tokens [OF assms] r
    by (cases c) (simp_all add: printCurrentDir_def consoleLog_def)
  show "calls (stateOf (handleLine E s line)) = calls (snd (dispatch E s command params))"
    unfolding handleLine_tokens [OF assms] r
    by (cases c) (simp_all add: printCurrentDir_def consoleLog_def)
qed

lemma pipeStreams_overwrites:
  assumes "map_of (disk s) destPath = Some (File old)"
  shows "map_of (disk (snd (pipeStreams f srcPath destPath s))) destPath =
           Some (File (case readBytes (disk s) srcPath of
                         Inl e \<Rightarrow> []
                       | Inr c \<Rightarrow> fst (f (if srcPath = destPath then [] else c))))"
proof -
  have w: "canCreate (disk s) destPath"
    using assms by (simp add: canCreate_def)
  show ?thesis
  proof (cases "readBytes (disk s) srcPath")
    case (Inl re)
    then show ?thesis
      by (simp add: pipeStreams_read_fails [OF Inl w] update_conv')
  next
    case (Inr c)
    then show ?thesis
      by (simp add: pipeStreams_flows [OF Inr w] update_conv')
  qed
qed

text \<open>
  C10. A \<open>compress\<close> or \<open>decompress\<close> line resolves its second parameter against the
  current directory and opens exactly that path for writing: the calls made are the
  opening of the source and of that path, no other path of the disk changes, and a file
  that was at that path holds afterwards whatever the transform let through (nothing
  when the source could not be read), not what it held before.
\<close>

theorem compress_writes_to_resolved_destination:
  assumes "parseInput (trim line) = Inr (command # src # dest # rest)"
    and "command = ''compress'' \<or> command = ''decompress''"
  shows "\<exists>srcPath destPath.
           path_resolve (procCwd E) [Some (currentDir s), Some src] = Inr srcPath
         \<and> path_resolve (procCwd E) [Some (currentDir s), Some dest] = Inr destPath
         \<and> calls (stateOf (handleLine E s line)) =
             calls s @ [OpenRead srcPath, OpenWrite destPath]
         \<and> (\<forall>q. q \<noteq> destPath \<longrightarrow>
               map_of (disk (stateOf (handleLine E s line))) q = map_of (disk s) q)
         \<and> (\<forall>old. map_of (disk s) destPath = Some (File old) \<longrightarrow>
               map_of (disk (stateOf (handleLine E s line))) destPath =
                 Some (File (case readBytes (disk s) srcPath of
                               Inl e \<Rightarrow> []
                             | Inr c \<Rightarrow>
                                 fst ((if command = ''compress''
                                       then (\<lambda>b. (brotliCompress E b, True))
                                       else brotliDecompress E)
                                      (if srcPath = destPath then [] else c)))))"
proof -
  obtain srcPath where r1: "path_resolve (procCwd E) [Some (currentDir s), Some src] = Inr srcPath"
    using path_resolve_strings [of "[Some (currentDir s), Some src]"] by auto
  obtain destPath where
    r2: "path_resolve (procCwd E) [Some (currentDir s), Some dest] = Inr destPath"
    using path_resolve_strings [of "[Some (currentDir s), Some dest]"] by auto
  define f where "f = (if command = ''compress'' then (\<lambda>b. (brotliCompress E b, True))
                       else brotliDecompress E)"
  have d: "dispatch E s command (src # dest # rest) = pipeStreams f srcPath destPath s"
    using assms(2) r1 r2
    by (auto simp: dispatch_def param_simps compressFile_def decompressFile_def f_def)
  have "calls (stateOf (handleLine E s line)) = calls s @ [OpenRead srcPath, OpenWrite destPath]"
    by (simp add: handleLine_disk_calls [OF assms(1)] d pipeStreams_calls)
  moreover
  have "\<forall>q. q \<noteq> destPath \<longrightarrow>
          map_of (disk (stateOf (handleLine E s line))) q = map_of (disk s) q"
    by (simp add: handleLine_disk_calls [OF assms(1)] d pipeStreams_frame)
  moreover
  have "\<forall>old. map_of (disk s) destPath = Some (File old) \<longrightarrow>
          map_of (disk (stateOf (handleLine E s line))) destPath =
            Some (File (case readBytes (disk s) srcPath of
                          Inl e \<Rightarrow> []
                        | Inr c \<Rightarrow> fst (f (if srcPath = destPath then [] else c))))"
    by (auto simp: handleLine_disk_calls [OF assms(1)] d dest: pipeStreams_overwrites)
  ultimately show ?thesis
    using r1 r2 unfolding f_def by blast
qed

theorem compress_writes_to_resolved_destination_witness:
  "calls (stateOf (handleLine hostExample stateExample2 ''compress a.txt sub/old.br'')) =
      [OpenRead ''/home/u/a.txt'', OpenWrite ''/home/u/sub/old.br'']
   \<and> map_of (disk (stateOf (handleLine hostExample stateExample2 ''compress a.txt sub/old.br'')))
        ''/home/u/sub/old.br'' = Some (File ''zabc'')
   \<and> map_of (disk (stateOf (handleLine hostExample stateExample2 ''compress a.txt sub/old.br'')))
        ''/home/u/sub/old.br/a.txt'' = None"
proof -
  have t: "parseInput (trim ''compress a.txt sub/old.br'')
             = Inr [''compress'', ''a.txt'', ''sub/old.br'']"
    by code_simp
  have r1: "path_resolve (procCwd hostExample) [Some (currentDir stateExample2), Some ''a.txt'']
              = Inr ''/home/u/a.txt''"
    by code_simp
  have r2: "path_resolve (procCwd hostExample)
              [Some (currentDir stateExample2), Some ''sub/old.br''] = Inr ''/home/u/sub/old.br''"
    by code_simp
  have m: "map_of (disk stateExample2) ''/home/u/sub/old.br'' = Some (File ''old'')"
    by code_simp
  have n: "map_of (disk stateExample2) ''/home/u/sub/old.br/a.txt'' = None"
    by code_simp
  have b: "readBytes (disk stateExample2) ''/home/u/a.txt'' = Inr ''abc''"
    by code_simp
  have k: "calls stateExample2 = []"
    by (simp add: stateExample2_def)
  have z: "brotliCompress hostExample ''abc'' = ''zabc''"
    by (simp add: hostExample_def)
  from compress_writes_to_resolved_destination [OF t, of hostExample stateExample2]
    r1 r2 m n b k z
  show ?thesis by auto
qed

section \<open>Renaming\<close>

lemma split_joinWith:
  assumes "list_all properSeg segs" and "segs \<noteq> []"
  shows "split (CHR ''/'') (joinWith (CHR ''/'') segs @ CHR ''/'' # r) = segs @ split (CHR ''/'') r"
  using assms
proof (induction segs)
  case Nil
  then show ?case by simp
next
  case (Cons w ws)
  then have w: "CHR ''/'' \<notin> set w" by (simp add: properSeg_def)
  show ?case
  proof (cases ws)
    case Nil
    with w show ?thesis by (simp add: split_append_separator)
  next
    case (Cons v vs)
    with Cons.IH Cons.prems
    have "split (CHR ''/'') (joinWith (CHR ''/'') ws @ CHR ''/'' # r) = ws @ split (CHR ''/'') r"
      by simp
    with w Cons show ?thesis
      using split_append_separator [OF w, of "joinWith (CHR ''/'') ws @ CHR ''/'' # r"]
      by simp
  qed
qed

lemma normSegs_proper:
  "list_all properSeg xs \<Longrightarrow> normSegs a (xs @ ys) st = normSegs a ys (rev xs @ st)"
  by (induction xs arbitrary: st) (auto simp: properSeg_def)

lemma normalizeString_normal:
  assumes "list_all properSeg segs"
  shows "normalizeString (CHR ''/'' # joinWith (CHR ''/'') segs @ ''/'') False
           = joinWith (CHR ''/'') segs"
proof (cases "segs = []")
  case True
  then show ?thesis by (simp add: normalizeString_def)
next
  case False
  have "split (CHR ''/'') (CHR ''/'' # joinWith (CHR ''/'') segs @ ''/'') = [] # segs @ [[]]"
    using split_joinWith [OF assms False, of "[]"] by simp
  moreover have "normSegs False (segs @ [[]]) [] = segs"
    using normSegs_proper [OF assms, of False "[[]]" "[]"] by simp
  ultimately show ?thesis by (simp add: normalizeString_def)
qed

lemma path_resolve_absolute:
  assumes "new \<noteq> []" and "hd new = CHR ''/''"
  shows "path_resolve cwd [parent, Some new] = Inr (CHR ''/'' # normalizeString (new @ ''/'') False)"
  using assms by (simp add: path_resolve_def)

lemma renameSync_file:
  assumes "map_of d old = Some (File c)"
    and "map_of d (path_dirname new) = Some Dir"
    and "map_of d new \<noteq> Some Dir"
  shows "\<exists>d'. renameSync d old new = Inr d' \<and> map_of d' new = Some (File c)
           \<and> (new \<noteq> old \<longrightarrow> map_of d' old = None)
           \<and> (\<forall>q. q \<noteq> old \<and> q \<noteq> new \<longrightarrow> map_of d' q = map_of d q)"
proof (cases "old = new")
  case True
  with assms show ?thesis by (simp add: renameSync_def)
next
  case False
  with assms
  have "renameSync d old new = Inr (AList.update new (File c) (AList.delete old d))"
    by (simp add: renameSync_def split: option.splits node.splits)
  with False show ?thesis
    by (auto simp: update_conv' delete_conv')
qed

text \<open>
  C9. When the new name of an \<open>rn\<close> line is absolute, the path handed to
  \<open>fs.renameSync\<close> as the new one is the normal form of that name alone: the same
  whatever the old path and the current directory are, and the name itself when it is
  already normal (a slash before each of its proper segments). When the old path holds
  a regular file, the directory of the new path exists and the new path is not a
  directory, the line ends without a failure message, the file is at the new path with
  its bytes and no longer at the old one.
\<close>

theorem rn_absolute_new_name_is_the_target:
  assumes "parseInput (trim line) = Inr (''rn'' # old # new # rest)"
    and "new \<noteq> []" and "hd new = CHR ''/''"
    and "path_resolve (procCwd E) [Some (currentDir s), Some old] = Inr oldFull"
    and "target = CHR ''/'' # normalizeString (new @ ''/'') False"
  shows "(\<forall>cwd parent. path_resolve cwd [parent, Some new] = Inr target)
         \<and> (\<forall>segs. list_all properSeg segs \<and> new = CHR ''/'' # joinWith (CHR ''/'') segs
               \<longrightarrow> target = new)
         \<and> calls (stateOf (handleLine E s line)) = calls s @ [RenameSync oldFull target]
         \<and> (\<forall>c. map_of (disk s) oldFull = Some (File c)
                  \<and> map_of (disk s) (path_dirname target) = Some Dir
                  \<and> map_of (disk s) target \<noteq> Some Dir
               \<longrightarrow> (\<exists>s'. handleLine E s line = Prompt s'
                      \<and> console s' = console s @ [Log (''You are currently in '' @ currentDir s)]
                      \<and> map_of (disk s') target = Some (File c)
                      \<and> (target \<noteq> oldFull \<longrightarrow> map_of (disk s') oldFull = None)
                      \<and> (\<forall>q. q \<noteq> oldFull \<and> q \<noteq> target \<longrightarrow>
                             map_of (disk s') q = map_of (disk s) q)))"
proof -
  note r1 = assms(4)
  have r2: "\<And>cwd parent. path_resolve cwd [parent, Some new] = Inr target"
    unfolding assms(5) by (rule path_resolve_absolute [OF assms(2,3)])
  have d: "dispatch E s ''rn'' (old # new # rest) =
      (case renameSync (disk s) oldFull target of
         Inl e \<Rightarrow> (Threw e, called [RenameSync oldFull target] s)
       | Inr d' \<Rightarrow> (Returned, (called [RenameSync oldFull target] s)\<lparr>disk := d'\<rparr>))"
    by (simp add: dispatch_def param_simps renameFile_def r1 r2 Let_def)
  have n: "\<forall>segs. list_all properSeg segs \<and> new = CHR ''/'' # joinWith (CHR ''/'') segs
             \<longrightarrow> target = new"
    unfolding assms(5) using normalizeString_normal by auto
  have k: "calls (stateOf (handleLine E s line)) = calls s @ [RenameSync oldFull target]"
    by (simp add: handleLine_disk_calls [OF assms(1)] d called_def split: sum.splits)
  have f: "\<forall>c. map_of (disk s) oldFull = Some (File c)
                  \<and> map_of (disk s) (path_dirname target) = Some Dir
                  \<and> map_of (disk s) target \<noteq> Some Dir
               \<longrightarrow> (\<exists>s'. handleLine E s line = Prompt s'
                      \<and> console s' = console s @ [Log (''You are currently in '' @ currentDir s)]
                      \<and> map_of (disk s') target = Some (File c)
                      \<and> (target \<noteq> oldFull \<longrightarrow> map_of (disk s') oldFull = None)
                      \<and> (\<forall>q. q \<noteq> oldFull \<and> q \<noteq> target \<longrightarrow>
                             map_of (disk s') q = map_of (disk s) q))"
  proof (intro allI impI)
    fix c
    assume h: "map_of (disk s) oldFull = Some (File c)
                  \<and> map_of (disk s) (path_dirname target) = Some Dir
                  \<and> map_of (disk s) target \<noteq> Some Dir"
    then obtain d' where
      e: "renameSync (disk s) oldFull target = Inr d'" "map_of d' target = Some (File c)"
         "target \<noteq> oldFull \<longrightarrow> map_of d' oldFull = None"
         "\<forall>q. q \<noteq> oldFull \<and> q \<noteq> target \<longrightarrow> map_of d' q = map_of (disk s) q"
      using renameSync_file [of "disk s" oldFull c target] by blast
    show "\<exists>s'. handleLine E s line = Prompt s'
                      \<and> console s' = console s @ [Log (''You are currently in '' @ currentDir s)]
                      \<and> map_of (disk s') target = Some (File c)
                      \<and> (target \<noteq> oldFull \<longrightarrow> map_of (disk s') oldFull = None)
                      \<and> (\<forall>q. q \<noteq> oldFull \<and> q \<noteq> target \<longrightarrow>
                             map_of (disk s') q = map_of (disk s) q)"
      unfolding handleLine_tokens [OF assms(1)] d
      using e by (simp add: printCurrentDir_def consoleLog_def called_def)
  qed
  from r2 n k f show ?thesis by blast
qed

theorem rn_absolute_new_name_is_the_target_witness:
  "\<exists>s'. handleLine hostExample stateExample ''rn a.txt /home/b.txt'' = Prompt s'
      \<and> calls (stateOf (handleLine hostExample stateExample ''rn a.txt /home/b.txt''))
          = [RenameSync ''/home/u/a.txt'' ''/home/b.txt'']
      \<and> map_of (disk s') ''/home/b.txt'' = Some (File ''abc'')
      \<and> map_of (disk s') ''/home/u/a.txt'' = None
      \<and> map_of (disk s') ''/home/u/b.txt'' = None"
proof -
  have t: "parseInput (trim ''rn a.txt /home/b.txt'') = Inr [''rn'', ''a.txt'', ''/home/b.txt'']"
    by code_simp
  have a: "''/home/b.txt'' \<noteq> []" "hd ''/home/b.txt'' = CHR ''/''"
    by simp_all
  have r1: "path_resolve (procCwd hostExample) [Some (currentDir stateExample), Some ''a.txt'']
              = Inr ''/home/u/a.txt''"
    by code_simp
  have tg: "''/home/b.txt'' = CHR ''/'' # normalizeString (''/home/b.txt'' @ ''/'') False"
    by code_simp
  have m: "map_of (disk stateExample) ''/home/u/a.txt'' = Some (File ''abc'')"
       "map_of (disk stateExample) (path_dirname ''/home/b.txt'') = Some Dir"
       "map_of (disk stateExample) ''/home/b.txt'' \<noteq> Some Dir"
       "map_of (disk stateExample) ''/home/u/b.txt'' = None"
    by code_simp+
  have k: "calls stateExample = []"
    by (simp add: stateExample_def)
  note th = rn_absolute_new_name_is_the_target [OF t a r1 tg]
  from th have c: "calls (stateOf (handleLine hostExample stateExample ''rn a.txt /home/b.txt''))
          = calls stateExample @ [RenameSync ''/home/u/a.txt'' ''/home/b.txt'']"
    by blast
  from th have "\<forall>c. map_of (disk stateExample) ''/home/u/a.txt'' = Some (File c)
                  \<and> map_of (disk stateExample) (path_dirname ''/home/b.txt'') = Some Dir
                  \<and> map_of (disk stateExample) ''/home/b.txt'' \<noteq> Some Dir
               \<longrightarrow> (\<exists>s'. handleLine hostExample stateExample ''rn a.txt /home/b.txt'' = Prompt s'
                      \<and> console s' = console stateExample
                            @ [Log (''You are currently in '' @ currentDir stateExample)]
                      \<and> map_of (disk s') ''/home/b.txt'' = Some (File c)
                      \<and> (''/home/b.txt'' \<noteq> ''/home/u/a.txt'' \<longrightarrow> map_of (disk s') ''/home/u/a.txt'' = None)
                      \<and> (\<forall>q. q \<noteq> ''/home/u/a.txt'' \<and> q \<noteq> ''/home/b.txt'' \<longrightarrow>
                             map_of (disk s') q = map_of (disk stateExample) q))"
    by blast
  with m(1,2,3) obtain s' where
    s: "handleLine hostExample stateExample ''rn a.txt /home/b.txt'' = Prompt s'"
       "map_of (disk s') ''/home/b.txt'' = Some (File ''abc'')"
       "''/home/b.txt'' \<noteq> ''/home/u/a.txt'' \<longrightarrow> map_of (disk s') ''/home/u/a.txt'' = None"
       "\<forall>q. q \<noteq> ''/home/u/a.txt'' \<and> q \<noteq> ''/home/b.txt'' \<longrightarrow>
             map_of (disk s') q = map_of (disk stateExample) q"
    by blast
  from s(3) have x: "map_of (disk s') ''/home/u/a.txt'' = None" by simp
  from s(4) m(4) have y: "map_of (disk s') ''/home/u/b.txt'' = None" by simp
  from c k have z: "calls (stateOf (handleLine hostExample stateExample ''rn a.txt /home/b.txt''))
          = [RenameSync ''/home/u/a.txt'' ''/home/b.txt'']" by simp
  from s(1,2) x y z show ?thesis by blast
qed

end
